theory Spec2Isabelle
  imports Main "HOL-Library.Word" "HOL-Library.Char_ord" "HOL-Library.List_Lexorder"
begin

section \<open>Values of the host platform\<close>

text \<open>
  The library (\<^verbatim>\<open>src/index.ts\<close>) patches \<^verbatim>\<open>XMLHttpRequest.prototype\<close> and keeps a
  side record on every instance. The model below follows the source function by
  function. JavaScript exceptions are values of \<open>js_error\<close>; a function that may
  throw returns \<open>js_error + 'a\<close> (\<open>Inl\<close> is the throw). What the code does to the
  outside world is recorded in traces: the logger calls, the events dispatched on an
  instance, the calls forwarded to the original methods and the hook invocations.
\<close>

datatype js_error =
    Error string
  | TypeError string
  | RangeError string
  | SyntaxError string
  | DOMException string string

type_synonym byte = "8 word"
type_synonym Uint8Array = "byte list"

text \<open>The three methods of the \<^verbatim>\<open>Logger\<close> interface; the sink itself is pluggable.\<close>

datatype log_entry =
    Log string
  | Warn string
  | LogError string js_error

text \<open>A template literal \<^verbatim>\<open>"${name}"\<close>: the name between two double quote characters.\<close>

definition quoted :: "string \<Rightarrow> string" where
  "quoted s = CHR 0x22 # s @ [CHR 0x22]"

text \<open>\<^verbatim>\<open>`${n}`\<close> for a non-negative integer: its decimal digits.\<close>

function decimal :: "nat \<Rightarrow> string" where
  "decimal n =
     (if n < 10 then [char_of (48 + n)]
      else decimal (n div 10) @ [char_of (48 + n mod 10)])"
  by pat_completeness auto
termination
  by (relation "measure (\<lambda>n. n)") auto

declare decimal.simps [simp del]

text \<open>\<^verbatim>\<open>`${s}`\<close> for a value of type \<^verbatim>\<open>string | undefined\<close>.\<close>

definition template :: "string option \<Rightarrow> string" where
  "template s = (case s of None \<Rightarrow> ''undefined'' | Some t \<Rightarrow> t)"

section \<open>Requests, responses and hooks\<close>

text \<open>
  The host's \<^verbatim>\<open>Headers\<close> and \<^verbatim>\<open>Request\<close> follow the Fetch standard. Names and
  values are byte strings, as the characters of \<open>string\<close> are (a JavaScript string
  with a code unit above 255 is refused by the host with a \<^verbatim>\<open>TypeError\<close>; there is
  no such string here). Names are matched without regard to ASCII case.
\<close>

definition ascii_lower :: "char \<Rightarrow> char" where
  "ascii_lower c =
     (if 65 \<le> (of_char c :: nat) \<and> (of_char c :: nat) \<le> 90 then char_of ((of_char c :: nat) + 32)
      else c)"

definition ascii_upper :: "char \<Rightarrow> char" where
  "ascii_upper c =
     (if 97 \<le> (of_char c :: nat) \<and> (of_char c :: nat) \<le> 122 then char_of ((of_char c :: nat) - 32)
      else c)"

definition same_name :: "string \<Rightarrow> string \<Rightarrow> bool" where
  "same_name a b = (map ascii_lower a = map ascii_lower b)"

text \<open>
  A header name and a method are tokens: one or more of the characters
  \<^verbatim>\<open>!#$%&'*+-.^_`|~\<close>, digits and letters.
\<close>

definition is_tchar :: "char \<Rightarrow> bool" where
  "is_tchar c =
     ((48 \<le> (of_char c :: nat) \<and> (of_char c :: nat) \<le> 57)
      \<or> (65 \<le> (of_char c :: nat) \<and> (of_char c :: nat) \<le> 90)
      \<or> (97 \<le> (of_char c :: nat) \<and> (of_char c :: nat) \<le> 122)
      \<or> (of_char c :: nat) \<in> {33, 35, 36, 37, 38, 39, 42, 43, 45, 46, 94, 95, 96, 124, 126})"

definition is_token :: "string \<Rightarrow> bool" where
  "is_token s = (s \<noteq> [] \<and> list_all is_tchar s)"

text \<open>
  A value is normalized by removing leading and trailing HTTP whitespace (tab, line
  feed, carriage return, space). A header value has no leading or trailing tab or
  space and no NUL, line feed or carriage return.
\<close>

definition is_http_whitespace :: "char \<Rightarrow> bool" where
  "is_http_whitespace c = ((of_char c :: nat) \<in> {9, 10, 13, 32})"

definition normalize_value :: "string \<Rightarrow> string" where
  "normalize_value v =
     rev (dropWhile is_http_whitespace (rev (dropWhile is_http_whitespace v)))"

definition is_header_value :: "string \<Rightarrow> bool" where
  "is_header_value v =
     ((v = [] \<or> ((of_char (hd v) :: nat) \<notin> {9, 32} \<and> (of_char (last v) :: nat) \<notin> {9, 32}))
      \<and> list_all (\<lambda>c. (of_char c :: nat) \<notin> {0, 10, 13}) v)"

text \<open>
  A \<^verbatim>\<open>Headers\<close> object holds a header list: the entries in the order they were
  appended. Appending to the list takes the spelling of the first entry with the same
  name, when there is one.
\<close>

type_synonym Headers = "(string \<times> string) list"

definition header_list_append :: "Headers \<Rightarrow> string \<Rightarrow> string \<Rightarrow> Headers" where
  "header_list_append hs name v =
     hs @ [(case find (\<lambda>(k, w). same_name k name) hs of Some (k, w) \<Rightarrow> k | None \<Rightarrow> name, v)]"

text \<open>
  \<^verbatim>\<open>headers.append(name, value)\<close>: the value is normalized; an invalid name or value
  is a \<^verbatim>\<open>TypeError\<close>; a \<^verbatim>\<open>Headers\<close> with the guard \<^verbatim>\<open>request\<close> (the one a
  \<^verbatim>\<open>Request\<close> owns) silently drops a forbidden request header. Which headers are
  forbidden is the host's table \<open>forbidden\<close>, asked with the name in lower case.
\<close>

datatype guard = GuardNone | GuardRequest

definition Headers_append ::
  "guard \<Rightarrow> (string \<Rightarrow> string \<Rightarrow> bool) \<Rightarrow> Headers \<Rightarrow> string \<Rightarrow> string \<Rightarrow> js_error + Headers" where
  "Headers_append g forbidden hs name val =
     (let v = normalize_value val
      in if is_token name \<and> is_header_value v
         then (if g = GuardRequest \<and> forbidden (map ascii_lower name) v then Inr hs
               else Inr (header_list_append hs name v))
         else Inl (TypeError ''Invalid header name or value''))"

text \<open>Appending a list of entries one after the other; the first throw ends it.\<close>

fun append_all ::
  "guard \<Rightarrow> (string \<Rightarrow> string \<Rightarrow> bool) \<Rightarrow> Headers \<Rightarrow> (string \<times> string) list
     \<Rightarrow> js_error + Headers" where
  "append_all g forbidden hs [] = Inr hs"
| "append_all g forbidden hs ((name, val) # rest) =
     (case Headers_append g forbidden hs name val of
        Inl e \<Rightarrow> Inl e
      | Inr hs1 \<Rightarrow> append_all g forbidden hs1 rest)"

text \<open>\<^verbatim>\<open>Array.prototype.join\<close> with a separator.\<close>

fun join :: "string \<Rightarrow> string list \<Rightarrow> string" where
  "join sep [] = []"
| "join sep [a] = a"
| "join sep (a # b # rest) = a @ sep @ join sep (b # rest)"

text \<open>
  Reading a \<^verbatim>\<open>Headers\<close>: the values appended under a name, in order;
  \<^verbatim>\<open>headers.get(name)\<close>, which joins them with a comma and a space; and what
  iterating the object yields: the names in lower case, sorted, each with its joined
  value (\<^verbatim>\<open>set-cookie\<close> with one entry per value).
\<close>

definition header_values :: "Headers \<Rightarrow> string \<Rightarrow> string list" where
  "header_values hs name = map snd (filter (\<lambda>(k, v). same_name k name) hs)"

definition header_get :: "Headers \<Rightarrow> string \<Rightarrow> string option" where
  "header_get hs name =
     (case header_values hs name of [] \<Rightarrow> None | v # vs \<Rightarrow> Some (join '', '' (v # vs)))"

definition header_entries :: "Headers \<Rightarrow> (string \<times> string) list" where
  "header_entries hs =
     concat (map (\<lambda>n. if n = ''set-cookie'' then map (\<lambda>v. (n, v)) (header_values hs n)
                        else [(n, join '', '' (header_values hs n))])
               (sort (remdups (map (\<lambda>(k, v). map ascii_lower k) hs))))"

text \<open>
  The argument of \<^verbatim>\<open>send\<close>, of type \<^verbatim>\<open>Document | BodyInit | null | undefined\<close>.
\<close>

datatype body = BodyUndefined | BodyNull | BodyText string | BodyBytes Uint8Array

text \<open>A \<^verbatim>\<open>Request\<close>: its URL, its method, the header list of its headers and its body.\<close>

record Request =
  req_url :: string
  req_method :: string
  req_headers :: Headers
  req_body :: body

text \<open>
  What the model takes from the host as given: \<open>URL_href\<close> is
  \<^verbatim>\<open>new URL(u, location.origin).toString()\<close>, which throws on a URL it cannot parse;
  \<open>Request_url\<close> is the URL step of \<^verbatim>\<open>new Request\<close>, which parses the string again
  and throws on a URL with credentials; \<open>forbidden_request_header\<close> is the table of
  forbidden request headers.
\<close>

record host =
  URL_href :: "string \<Rightarrow> js_error + string"
  Request_url :: "string \<Rightarrow> js_error + string"
  forbidden_request_header :: "string \<Rightarrow> string \<Rightarrow> bool"

text \<open>
  A method must be a token and none of \<^verbatim>\<open>CONNECT\<close>, \<^verbatim>\<open>TRACE\<close>, \<^verbatim>\<open>TRACK\<close>; the
  six standard methods are put in upper case.
\<close>

definition is_forbidden_method :: "string \<Rightarrow> bool" where
  "is_forbidden_method m = (map ascii_lower m \<in> set [''connect'', ''trace'', ''track''])"

definition normalize_method :: "string \<Rightarrow> string" where
  "normalize_method m =
     (if map ascii_upper m \<in> set [''DELETE'', ''GET'', ''HEAD'', ''OPTIONS'', ''POST'', ''PUT'']
      then map ascii_upper m else m)"

text \<open>
  \<^verbatim>\<open>new Request(u, { method, headers, body })\<close> with a \<^verbatim>\<open>Headers\<close> object for
  \<^verbatim>\<open>headers\<close>: the URL step, the method (\<^verbatim>\<open>GET\<close> when \<^verbatim>\<open>undefined\<close>), the entries of
  the given header list appended to the request's own headers, and the refusal of a
  body on \<^verbatim>\<open>GET\<close> and \<^verbatim>\<open>HEAD\<close>.
\<close>

definition new_Request ::
  "host \<Rightarrow> string \<Rightarrow> string option \<Rightarrow> Headers \<Rightarrow> body \<Rightarrow> js_error + Request" where
  "new_Request h u m hs b =
     (case Request_url h u of
        Inl e \<Rightarrow> Inl e
      | Inr parsed \<Rightarrow>
          (case (case m of
                   None \<Rightarrow> Inr ''GET''
                 | Some s \<Rightarrow>
                     if is_token s \<and> \<not> is_forbidden_method s then Inr (normalize_method s)
                     else Inl (TypeError ''Invalid or forbidden method'')) of
             Inl e \<Rightarrow> Inl e
           | Inr method_name \<Rightarrow>
               (case append_all GuardRequest (forbidden_request_header h) [] hs of
                  Inl e \<Rightarrow> Inl e
                | Inr own \<Rightarrow>
                    if b \<noteq> BodyNull \<and> (method_name = ''GET'' \<or> method_name = ''HEAD'')
                    then Inl (TypeError ''Request with GET/HEAD method cannot have body'')
                    else Inr \<lparr>req_url = parsed, req_method = method_name, req_headers = own,
                              req_body = b\<rparr>)))"

text \<open>
  A response body is a \<^verbatim>\<open>ReadableStream<Uint8Array>\<close>: the chunks its reader yields
  with \<^verbatim>\<open>done = false\<close>, and how it ends: \<^verbatim>\<open>done = true\<close>, a rejected read, or a
  read that never settles.
\<close>

datatype stream_end = Closes | Errors js_error | Stalls

record ReadableStream =
  chunks :: "Uint8Array list"
  ending :: stream_end

text \<open>A \<^verbatim>\<open>Response\<close>; \<open>resp_headers\<close> is the header list of \<^verbatim>\<open>response.headers\<close>.\<close>

record Response =
  resp_status :: nat
  resp_statusText :: string
  resp_headers :: Headers
  resp_url :: string
  resp_body :: "ReadableStream option"

text \<open>What an \<^verbatim>\<open>await\<close> on a promise observes; \<open>Pending\<close> is a promise that never settles.\<close>

datatype 'a promise = Resolved 'a | Rejected js_error | Pending

text \<open>
  An \<^verbatim>\<open>AbortSignal\<close> is identified by the number of its controller. A responder is
  called with the signal; it may throw at once (\<open>Inl\<close>) or return a promise.
\<close>

type_synonym AbortSignal = nat
type_synonym responder = "AbortSignal \<Rightarrow> js_error + Response promise"
type_synonym XhrHook = "Request \<Rightarrow> responder option"

section \<open>The hook registry and the installer\<close>

text \<open>
  A property of \<^verbatim>\<open>XMLHttpRequest.prototype\<close>: absent, an accessor with a getter, a
  function, or some other value. An implementation is the native one or a wrapper
  installed by \<^verbatim>\<open>patchGetter\<close> / \<^verbatim>\<open>patchMethod\<close> around the one it replaced.
\<close>

datatype impl = Native | Wrapper impl

datatype property = Absent | Accessor impl | Function impl | OtherValue

text \<open>
  The module state: \<open>hooks\<close> is the \<^verbatim>\<open>Map<string, XhrHook>\<close> in insertion order,
  \<open>hooked\<close> the marker \<^verbatim>\<open>XMLHttpRequest[patchXhrKey]\<close>, \<open>prototype\<close> the patched
  surface, \<open>logged\<close> the logger calls so far and \<open>hook_calls\<close> the names of the
  hooks invoked so far, in call order.
\<close>

record world =
  hooks :: "(string \<times> XhrHook) list"
  hooked :: bool
  prototype :: "string \<Rightarrow> property"
  logged :: "log_entry list"
  hook_calls :: "string list"

definition logger :: "log_entry \<Rightarrow> world \<Rightarrow> world" where
  "logger e w = w\<lparr>logged := logged w @ [e]\<rparr>"

text \<open>\<^verbatim>\<open>Map.prototype.has / set / delete\<close> on the insertion-ordered map.\<close>

definition Map_has :: "('k \<times> 'v) list \<Rightarrow> 'k \<Rightarrow> bool" where
  "Map_has m k = (k \<in> fst ` set m)"

definition Map_set :: "('k \<times> 'v) list \<Rightarrow> 'k \<Rightarrow> 'v \<Rightarrow> ('k \<times> 'v) list" where
  "Map_set m k v =
     (if Map_has m k then map (\<lambda>(k', v'). if k' = k then (k', v) else (k', v')) m
      else m @ [(k, v)])"

definition Map_delete :: "('k \<times> 'v) list \<Rightarrow> 'k \<Rightarrow> ('k \<times> 'v) list" where
  "Map_delete m k = filter (\<lambda>(k', v'). k' \<noteq> k) m"

definition patchGetter :: "string \<Rightarrow> world \<Rightarrow> js_error + world" where
  "patchGetter p w =
     (case prototype w p of
        Accessor g \<Rightarrow> Inr (w\<lparr>prototype := (prototype w)(p := Accessor (Wrapper g))\<rparr>)
      | _ \<Rightarrow> Inl (Error (''Property '' @ quoted p @ '' does not have a getter.'')))"

definition patchMethod :: "string \<Rightarrow> world \<Rightarrow> js_error + world" where
  "patchMethod p w =
     (case prototype w p of
        Function f \<Rightarrow> Inr (w\<lparr>prototype := (prototype w)(p := Function (Wrapper f))\<rparr>)
      | _ \<Rightarrow> Inl (Error (''Property '' @ quoted p @ '' is not a method.'')))"

text \<open>
  Runs the patches in order; a throw leaves the world as the patches before it made
  it (the second component) and skips the rest.
\<close>

fun patch_all :: "(world \<Rightarrow> js_error + world) list \<Rightarrow> world \<Rightarrow> js_error option \<times> world" where
  "patch_all [] w = (None, w)"
| "patch_all (f # fs) w =
     (case f w of Inl e \<Rightarrow> (Some e, w) | Inr w' \<Rightarrow> patch_all fs w')"

definition patched_getters :: "string list" where
  "patched_getters =
     [''readyState'', ''status'', ''statusText'', ''response'', ''responseURL'',
      ''responseText'']"

definition patched_methods :: "string list" where
  "patched_methods =
     [''open'', ''setRequestHeader'', ''send'', ''abort'', ''getAllResponseHeaders'']"

definition hookXhrIfNeeded :: "world \<Rightarrow> js_error option \<times> world" where
  "hookXhrIfNeeded w =
     (if hooked w
      then (None, logger (Warn ''XMLHttpRequest is already hooked, skipping.'') w)
      else patch_all (map patchGetter patched_getters @ map patchMethod patched_methods)
             ((logger (Log ''Hooking XMLHttpRequest'') w)\<lparr>hooked := True\<rparr>))"

text \<open>
  \<^verbatim>\<open>InsertXhrHookOptions\<close>: the property \<^verbatim>\<open>onExists\<close> may be missing (\<open>None\<close>), or
  present with the value \<^verbatim>\<open>undefined\<close> (\<open>Some None\<close>) or one of the three policies.
  The spread \<^verbatim>\<open>{ onExists: "ignore", ...options }\<close> takes the default only when the
  property is missing.
\<close>

datatype on_exists = OnReplace | OnIgnore | OnError

type_synonym InsertXhrHookOptions = "on_exists option option"

definition computedOptions :: "InsertXhrHookOptions \<Rightarrow> on_exists option" where
  "computedOptions options = (case options of None \<Rightarrow> Some OnIgnore | Some v \<Rightarrow> v)"

definition insertXhrHook ::
  "string \<Rightarrow> XhrHook \<Rightarrow> InsertXhrHookOptions \<Rightarrow> world \<Rightarrow> js_error option \<times> world" where
  "insertXhrHook name hook options w =
     (case hookXhrIfNeeded w of
        (Some e, w1) \<Rightarrow> (Some e, w1)
      | (None, w1) \<Rightarrow>
          if Map_has (hooks w1) name then
            (case computedOptions options of
               Some OnError \<Rightarrow>
                 (Some (Error (''Hook with name '' @ quoted name @ '' already exists.'')), w1)
             | Some OnIgnore \<Rightarrow>
                 (None, logger (Log (''Hook with name '' @ quoted name
                                      @ '' already exists, ignoring insert.'')) w1)
             | Some OnReplace \<Rightarrow>
                 (let w2 = logger (Log (''Replacing existing hook '' @ quoted name)) w1
                  in (None, w2\<lparr>hooks := Map_set (hooks w2) name hook\<rparr>))
             | None \<Rightarrow> (None, w1\<lparr>hooks := Map_set (hooks w1) name hook\<rparr>))
          else
            (let w2 = logger (Log (''Inserting hook '' @ quoted name)) w1
             in (None, w2\<lparr>hooks := Map_set (hooks w2) name hook\<rparr>)))"

definition removeXhrHook :: "string \<Rightarrow> world \<Rightarrow> bool \<times> world" where
  "removeXhrHook name w =
     (if Map_has (hooks w) name
      then (let w1 = logger (Log (''Removing hook '' @ quoted name)) w
            in (True, w1\<lparr>hooks := Map_delete (hooks w1) name\<rparr>))
      else (False, logger (Warn (''Hook with name '' @ quoted name
                                   @ '' does not exist, ignoring remove.'')) w))"

text \<open>
  The trial loop of the patched \<^verbatim>\<open>send\<close>: each hook of the map, in insertion order,
  is logged, recorded as called and applied to the request; the first responder ends
  the loop.
\<close>

fun trial :: "(string \<times> XhrHook) list \<Rightarrow> Request \<Rightarrow> world \<Rightarrow> responder option \<times> world" where
  "trial [] request w = (None, w)"
| "trial ((name, hook) # rest) request w =
     (let w1 = (logger (Log (''Calling hook '' @ quoted name)) w)
                 \<lparr>hook_calls := hook_calls w @ [name]\<rparr>
      in case hook request of
           Some responseCallback \<Rightarrow>
             (Some responseCallback,
              logger (Log (''Hook '' @ quoted name @ '' is overriding the request.'')) w1)
         | None \<Rightarrow>
             trial rest request
               (logger (Log (''Hook '' @ quoted name @ '' did not return a response.'')) w1))"


section \<open>The side record of an instance\<close>

text \<open>
  \<^verbatim>\<open>patch.headers\<close> is an ordinary object created by \<^verbatim>\<open>{}\<close> and used as a
  \<^verbatim>\<open>Record<string, string>\<close>: its own properties in creation order. An assignment to
  an existing key replaces the value in place, an assignment to a new key adds a
  property at the end, and an assignment to \<^verbatim>\<open>__proto__\<close> reaches the setter
  inherited from \<^verbatim>\<open>Object.prototype\<close>, which ignores a string and creates nothing.
\<close>

type_synonym js_object = "(string \<times> string) list"


definition is_digit :: "char \<Rightarrow> bool" where
  "is_digit c = (48 \<le> (of_char c :: nat) \<and> (of_char c :: nat) \<le> 57)"

definition digits_value :: "string \<Rightarrow> nat" where
  "digits_value ds = foldl (\<lambda>a c. 10 * a + ((of_char c :: nat) - 48)) 0 ds"

text \<open>
  An array index is a canonical numeric string below \<open>2\<^sup>3\<^sup>2 - 1\<close>.
  \<^verbatim>\<open>Object.entries\<close> lists the array-index keys first, in ascending numeric order,
  then the other string keys in creation order.
\<close>

definition is_array_index :: "string \<Rightarrow> bool" where
  "is_array_index k =
     (k \<noteq> [] \<and> list_all is_digit k \<and> (k = ''0'' \<or> hd k \<noteq> CHR ''0'')
      \<and> digits_value k < 2 ^ 32 - 1)"

definition Object_entries :: "js_object \<Rightarrow> (string \<times> string) list" where
  "Object_entries obj =
     sort_key (\<lambda>(k, v). digits_value k) (filter (\<lambda>(k, v). is_array_index k) obj)
     @ filter (\<lambda>(k, v). \<not> is_array_index k) obj"

text \<open>
  The class \<^verbatim>\<open>PatchedXMLHttpRequestInstance\<close>. \<open>abortController\<close> is the number of
  the instance's current controller; a field that is \<^verbatim>\<open>undefined\<close> is \<open>None\<close>.
\<close>

record PatchedXMLHttpRequestInstance =
  abortController :: nat
  xhr_method :: "string option"
  url :: "string option"
  headers :: "js_object option"
  readyState :: "nat option"
  status :: "nat option"
  statusText :: "string option"
  response :: "Response option"
  responseBufferInternal :: "Uint8Array option"
  responseBuffer :: "Uint8Array option"
  responseUrl :: "string option"

datatype event = Event string | ProgressEvent string nat

datatype js_arg = ArgUndefined | ArgNull | ArgBool bool | ArgString string

text \<open>A call forwarded to an original method with \<^verbatim>\<open>Reflect.apply\<close>, with its arguments.\<close>

datatype native_call =
    NativeOpen string string "js_arg list"
  | NativeSetRequestHeader string string
  | NativeSend body
  | NativeAbort
  | NativeGetAllResponseHeaders

text \<open>
  One \<^verbatim>\<open>XMLHttpRequest\<close> instance: the side record under the symbol key (created on
  first access), its \<^verbatim>\<open>responseType\<close>, the number of abort controllers created for
  it, the controllers aborted so far, the events dispatched on it and the calls
  forwarded to its original methods.
\<close>

record XMLHttpRequest =
  patchXhrKey :: "PatchedXMLHttpRequestInstance option"
  responseType :: string
  controllers :: nat
  aborted :: "nat list"
  dispatched :: "event list"
  native_calls :: "native_call list"

definition getPatchedXMLHttpRequest ::
  "XMLHttpRequest \<Rightarrow> PatchedXMLHttpRequestInstance \<times> XMLHttpRequest" where
  "getPatchedXMLHttpRequest x =
     (case patchXhrKey x of
        Some p \<Rightarrow> (p, x)
      | None \<Rightarrow>
          (let p = \<lparr>abortController = controllers x, xhr_method = None, url = None,
                    headers = None, readyState = None, status = None, statusText = None,
                    response = None, responseBufferInternal = None, responseBuffer = None,
                    responseUrl = None\<rparr>
           in (p, x\<lparr>patchXhrKey := Some p, controllers := Suc (controllers x)\<rparr>)))"

text \<open>The patched \<^verbatim>\<open>open\<close>; \<open>rest\<close> are the arguments after the method and the URL.\<close>

definition xhr_open ::
  "string \<Rightarrow> string \<Rightarrow> js_arg list \<Rightarrow> world \<times> XMLHttpRequest \<Rightarrow> world \<times> XMLHttpRequest" where
  "xhr_open method_arg url_arg rest wx =
     (case wx of (w, x) \<Rightarrow>
        (let w1 = logger (Log (''XMLHttpRequest open called with method: '' @ method_arg
                               @ '', url: '' @ url_arg)) w;
             (patch, x1) = getPatchedXMLHttpRequest x;
             x2 = x1\<lparr>aborted := aborted x1 @ [abortController patch]\<rparr>;
             patch1 = patch\<lparr>abortController := controllers x2\<rparr>;
             x3 = x2\<lparr>controllers := Suc (controllers x2)\<rparr>;
             patch2 = patch1\<lparr>xhr_method := Some method_arg, url := Some url_arg,
                             headers := Some []\<rparr>
         in (w1, x3\<lparr>patchXhrKey := Some patch2,
                    native_calls := native_calls x3 @ [NativeOpen method_arg url_arg rest]\<rparr>)))"


text \<open>
  \<^verbatim>\<open>xhrToRequest\<close>: the URL is made absolute, every entry of \<^verbatim>\<open>patch.headers\<close> is
  appended to a new \<^verbatim>\<open>Headers\<close> (\<^verbatim>\<open>Object.entries\<close> throws on \<^verbatim>\<open>undefined\<close>), and
  the \<^verbatim>\<open>Request\<close> is constructed. Each step may throw, and the first throw is the
  result.
\<close>

definition xhrToRequest ::
  "host \<Rightarrow> PatchedXMLHttpRequestInstance \<Rightarrow> body \<Rightarrow> js_error + Request" where
  "xhrToRequest h patch body_arg =
     (case URL_href h (case url patch of None \<Rightarrow> [] | Some u \<Rightarrow> u) of
        Inl e \<Rightarrow> Inl e
      | Inr u \<Rightarrow>
          (case headers patch of
             None \<Rightarrow> Inl (TypeError ''Cannot convert undefined or null to object'')
           | Some obj \<Rightarrow>
               (case append_all GuardNone (forbidden_request_header h) [] (Object_entries obj) of
                  Inl e \<Rightarrow> Inl e
                | Inr hs \<Rightarrow>
                    new_Request h u (xhr_method patch) hs
                      (case body_arg of BodyUndefined \<Rightarrow> BodyNull | b \<Rightarrow> b))))"


section \<open>The response emulation state machine\<close>

text \<open>
  \<^verbatim>\<open>parseInt(s, 10)\<close>: leading white space is skipped, then an optional sign, then the
  longest run of decimal digits; without a digit the result is \<^verbatim>\<open>NaN\<close>.
\<close>

datatype js_number = NaN | Num int

definition is_js_space :: "char \<Rightarrow> bool" where
  "is_js_space c = ((of_char c :: nat) \<in> {9, 10, 11, 12, 13, 32, 160})"

definition parseInt :: "string \<Rightarrow> js_number" where
  "parseInt s =
     (let s1 = dropWhile is_js_space s;
          negative = (case s1 of c # r \<Rightarrow> c = CHR ''-'' | [] \<Rightarrow> False);
          s2 = (case s1 of c # r \<Rightarrow> if c = CHR ''-'' \<or> c = CHR ''+'' then r else s1 | [] \<Rightarrow> s1);
          ds = takeWhile is_digit s2
      in if ds = [] then NaN
         else if negative then Num (- int (digits_value ds))
         else Num (int (digits_value ds)))"

text \<open>
  \<^verbatim>\<open>new Uint8Array(n)\<close>: \<^verbatim>\<open>NaN\<close> counts as 0, a negative length or one above
  \<open>2\<^sup>5\<^sup>3 - 1\<close> is a \<^verbatim>\<open>RangeError\<close>, and the new array is filled with zeros. (An engine
  may refuse a smaller length for lack of memory; that is not modelled.)
\<close>

definition new_Uint8Array :: "js_number \<Rightarrow> js_error + Uint8Array" where
  "new_Uint8Array n =
     (case n of
        NaN \<Rightarrow> Inr []
      | Num i \<Rightarrow>
          if i < 0 \<or> 2 ^ 53 - 1 < i then Inl (RangeError ''Invalid typed array length'')
          else Inr (replicate (nat i) 0))"

text \<open>\<^verbatim>\<open>target.set(source, offset)\<close> throws when the source does not fit.\<close>

definition Uint8Array_set :: "Uint8Array \<Rightarrow> Uint8Array \<Rightarrow> nat \<Rightarrow> js_error + Uint8Array" where
  "Uint8Array_set target source at =
     (if length target < at + length source then Inl (RangeError ''offset is out of bounds'')
      else Inr (take at target @ source @ drop (at + length source) target))"

text \<open>\<^verbatim>\<open>a.subarray(0, e)\<close>: the first \<open>e\<close> bytes, or all of \<open>a\<close> when it is shorter.\<close>

definition subarray0 :: "Uint8Array \<Rightarrow> nat \<Rightarrow> Uint8Array" where
  "subarray0 a e = take e a"

text \<open>
  The length of the first buffer: the parsed \<^verbatim>\<open>Content-Length\<close> when the header is
  present and not the empty string, else \<^verbatim>\<open>1024 * 1024\<close>.
\<close>

definition initial_length :: "Response \<Rightarrow> js_number" where
  "initial_length r =
     (case header_get (resp_headers r) ''Content-Length'' of
        None \<Rightarrow> Num (1024 * 1024)
      | Some s \<Rightarrow> if s = [] then Num (1024 * 1024) else parseInt s)"

text \<open>
  What one run of \<^verbatim>\<open>startXhrWithResponseCallback\<close> has done so far: the side record,
  the events it dispatched and the messages it logged.
\<close>

record run =
  patch :: PatchedXMLHttpRequestInstance
  events :: "event list"
  logs :: "log_entry list"

text \<open>
  The body of the read loop for one chunk \<open>v\<close>, with the locals \<^verbatim>\<open>buffer\<close> and
  \<^verbatim>\<open>offset\<close>. Where the chunk fits, \<^verbatim>\<open>patch.responseBufferInternal\<close> is the local
  \<^verbatim>\<open>buffer\<close> itself, so the write shows in \<^verbatim>\<open>buffer\<close> too; where it does not fit the
  write goes to the new array and \<^verbatim>\<open>buffer\<close> (a \<^verbatim>\<open>const\<close>) stays what it was. A
  throw of \<^verbatim>\<open>set\<close> leaves the record with the assignment made before it. A chunk is
  a \<^verbatim>\<open>Uint8Array\<close>, which is truthy also when it is empty, so the test
  \<^verbatim>\<open>if (value)\<close> holds for every chunk.
\<close>

definition on_chunk ::
  "Uint8Array \<Rightarrow> Uint8Array \<Rightarrow> nat \<Rightarrow> run \<Rightarrow> js_error option \<times> Uint8Array \<times> nat \<times> run" where
  "on_chunk v buffer offset r =
     (let grows = length buffer < offset + length v
      in case (if grows
               then Uint8Array_set (replicate ((length buffer + length v) * 2) 0) buffer 0
               else Inr buffer) of
           Inl e \<Rightarrow> (Some e, buffer, offset, r)
         | Inr internal \<Rightarrow>
             (let r1 = r\<lparr>patch := (patch r)\<lparr>responseBufferInternal := Some internal\<rparr>\<rparr>
              in case Uint8Array_set internal v offset of
                   Inl e \<Rightarrow> (Some e, buffer, offset, r1)
                 | Inr written \<Rightarrow>
                     (let offset1 = offset + length v
                      in (None, (if grows then buffer else written), offset1,
                          r1\<lparr>patch := (patch r1)
                                 \<lparr>responseBufferInternal := Some written,
                                  responseBuffer := Some (subarray0 written offset1),
                                  readyState := Some 3\<rparr>,
                             logs := logs r1 @ [Log (''XMLHttpRequest loading, received ''
                                                     @ decimal offset1 @ '' bytes'')],
                             events := events r1 @ [Event ''readystatechange'',
                                                    ProgressEvent ''progress'' offset1]\<rparr>))))"

text \<open>
  The \<^verbatim>\<open>while (true)\<close> loop over the reads of the body. The result says how the loop
  was left: \<open>Resolved\<close> with the final offset at \<^verbatim>\<open>done\<close>, \<open>Rejected\<close> when a read or
  the loop body threw, \<open>Pending\<close> when a read never settles.
\<close>

fun read_loop ::
  "Uint8Array list \<Rightarrow> stream_end \<Rightarrow> Uint8Array \<Rightarrow> nat \<Rightarrow> run \<Rightarrow> nat promise \<times> run" where
  "read_loop [] e buffer offset r =
     (case e of
        Closes \<Rightarrow> (Resolved offset, r)
      | Errors err \<Rightarrow> (Rejected err, r)
      | Stalls \<Rightarrow> (Pending, r))"
| "read_loop (v # vs) e buffer offset r =
     (case on_chunk v buffer offset r of
        (Some err, buffer1, offset1, r1) \<Rightarrow> (Rejected err, r1)
      | (None, buffer1, offset1, r1) \<Rightarrow> read_loop vs e buffer1 offset1 r1)"

text \<open>The statements after the loop.\<close>

definition on_complete :: "Response \<Rightarrow> nat \<Rightarrow> run \<Rightarrow> run" where
  "on_complete resp offset r =
     r\<lparr>patch := (patch r)
          \<lparr>responseBufferInternal :=
             map_option (\<lambda>b. subarray0 b offset) (responseBufferInternal (patch r)),
           readyState := Some 4,
           responseUrl := Some (resp_url resp)\<rparr>,
       logs := logs r @ [Log (''Hook request completed with status: ''
                              @ decimal (resp_status resp))],
       events := events r @ [Event ''load'', Event ''readystatechange'', Event ''loadend'']\<rparr>"

text \<open>The \<^verbatim>\<open>catch\<close> block.\<close>

definition on_error :: "js_error \<Rightarrow> run \<Rightarrow> run" where
  "on_error e r =
     r\<lparr>logs := logs r @ [LogError ''XMLHttpRequest failed to start:'' e],
       patch := (patch r)\<lparr>readyState := Some 4\<rparr>,
       events := events r @ [Event ''error'', Event ''readystatechange'']\<rparr>"

text \<open>The \<^verbatim>\<open>try\<close> block from the point where the responder's promise has resolved.\<close>

definition on_response :: "Response \<Rightarrow> run \<Rightarrow> nat promise \<times> run" where
  "on_response resp r =
     (let r1 = r\<lparr>patch := (patch r)\<lparr>readyState := Some 2\<rparr>,
                 logs := logs r @ [Log (''XMLHttpRequest received headers with status: ''
                                        @ decimal (resp_status resp))]\<rparr>;
          r2 = r1\<lparr>patch := (patch r1)\<lparr>status := Some (resp_status resp),
                                      statusText := Some (resp_statusText resp)\<rparr>,
                  events := events r1 @ [Event ''loadstart'']\<rparr>
      in case new_Uint8Array (initial_length resp) of
           Inl e \<Rightarrow> (Rejected e, r2)
         | Inr buffer \<Rightarrow>
             (let r3 = r2\<lparr>patch := (patch r2)\<lparr>response := Some resp\<rparr>\<rparr>
              in case resp_body resp of
                   None \<Rightarrow> (Resolved 0, r3)
                 | Some reader \<Rightarrow> read_loop (chunks reader) (ending reader) buffer 0 r3))"

text \<open>How a run ends: it completed, it took the \<^verbatim>\<open>catch\<close> block, or it waits for ever.\<close>

datatype lifecycle = Completed | Failed | Suspended

text \<open>
  \<^verbatim>\<open>startXhrWithResponseCallback\<close> on the side record: the steps of one run in the
  order the function takes them. The function is \<^verbatim>\<open>async\<close>: the steps after its first
  \<^verbatim>\<open>await\<close> happen after \<^verbatim>\<open>send\<close> has returned. They read and write no field that
  \<^verbatim>\<open>open\<close>, \<^verbatim>\<open>setRequestHeader\<close> or \<^verbatim>\<open>abort\<close> write, so the run is given as one
  sequence.
\<close>

definition run_responder :: "responder \<Rightarrow> PatchedXMLHttpRequestInstance \<Rightarrow> lifecycle \<times> run" where
  "run_responder responseCallback p =
     (let r = \<lparr>patch = p\<lparr>readyState := Some 1\<rparr>,
               events = [Event ''readystatechange''],
               logs = [Log (''Starting XMLHttpRequest with method: '' @ template (xhr_method p)
                            @ '', url: '' @ template (url p))]\<rparr>
      in case responseCallback (abortController p) of
           Inl e \<Rightarrow> (Failed, on_error e r)
         | Inr Pending \<Rightarrow> (Suspended, r)
         | Inr (Rejected e) \<Rightarrow> (Failed, on_error e r)
         | Inr (Resolved resp) \<Rightarrow>
             (case on_response resp r of
                (Rejected e, r1) \<Rightarrow> (Failed, on_error e r1)
              | (Pending, r1) \<Rightarrow> (Suspended, r1)
              | (Resolved offset, r1) \<Rightarrow> (Completed, on_complete resp offset r1)))"

definition startXhrWithResponseCallback ::
  "responder \<Rightarrow> world \<times> XMLHttpRequest \<Rightarrow> lifecycle \<times> world \<times> XMLHttpRequest" where
  "startXhrWithResponseCallback responseCallback wx =
     (case wx of (w, x) \<Rightarrow>
        (let (p, x1) = getPatchedXMLHttpRequest x;
             (l, r) = run_responder responseCallback p
         in (l, w\<lparr>logged := logged w @ logs r\<rparr>,
             x1\<lparr>patchXhrKey := Some (patch r), dispatched := dispatched x1 @ events r\<rparr>)))"

section \<open>The patched methods that dispatch and forward\<close>

text \<open>
  The patched \<^verbatim>\<open>send\<close>. The first component is the exception thrown to the caller,
  if any. A hook that answers starts the state machine and \<^verbatim>\<open>send\<close> returns
  \<^verbatim>\<open>undefined\<close>; the asynchronous function cannot throw to it.
\<close>

definition xhr_send ::
  "host \<Rightarrow> body \<Rightarrow> world \<times> XMLHttpRequest
     \<Rightarrow> js_error option \<times> world \<times> XMLHttpRequest" where
  "xhr_send h body_arg wx =
     (case wx of (w, x) \<Rightarrow>
        (let (p, x1) = getPatchedXMLHttpRequest x
         in case xhrToRequest h p BodyUndefined of
              Inl e \<Rightarrow> (Some e, w, x1)
            | Inr request \<Rightarrow>
                (case trial (hooks w) request w of
                   (Some responseCallback, w1) \<Rightarrow>
                     (None, snd (startXhrWithResponseCallback responseCallback (w1, x1)))
                 | (None, w1) \<Rightarrow>
                     (None,
                      logger (Log ''No hooks returned a response, proceeding with original send.'') w1,
                      x1\<lparr>native_calls := native_calls x1 @ [NativeSend body_arg]\<rparr>))))"

definition xhr_abort :: "XMLHttpRequest \<Rightarrow> XMLHttpRequest" where
  "xhr_abort x =
     (let (p, x1) = getPatchedXMLHttpRequest x
      in x1\<lparr>aborted := aborted x1 @ [abortController p],
            native_calls := native_calls x1 @ [NativeAbort]\<rparr>)"

text \<open>
  The patched \<^verbatim>\<open>getAllResponseHeaders\<close>: \<open>Inl\<close> is the string built from the stored
  response, \<open>Inr\<close> the instance after the call was forwarded to the original.
\<close>

definition xhr_getAllResponseHeaders :: "XMLHttpRequest \<Rightarrow> string + XMLHttpRequest" where
  "xhr_getAllResponseHeaders x =
     (let (p, x1) = getPatchedXMLHttpRequest x
      in case response p of
           Some resp \<Rightarrow>
             Inl (join [CHR 0x0D, CHR 0x0A] (map (\<lambda>(k, v). k @ '': '' @ v) (header_entries (resp_headers resp))))
         | None \<Rightarrow> Inr (x1\<lparr>native_calls := native_calls x1 @ [NativeGetAllResponseHeaders]\<rparr>))"

section \<open>The patched getters\<close>

text \<open>
  Each getter takes the value the original getter would return. \<^verbatim>\<open>a ?? b\<close> is \<open>a\<close>
  unless \<open>a\<close> is \<^verbatim>\<open>undefined\<close>. A getter read on an instance without a side record
  creates the record; the getters below return the value read and leave that write
  out, since every field of a new record is \<^verbatim>\<open>undefined\<close>.
\<close>

definition get_readyState :: "XMLHttpRequest \<Rightarrow> nat \<Rightarrow> nat" where
  "get_readyState x original =
     (case readyState (fst (getPatchedXMLHttpRequest x)) of Some v \<Rightarrow> v | None \<Rightarrow> original)"

definition get_status :: "XMLHttpRequest \<Rightarrow> nat \<Rightarrow> nat" where
  "get_status x original =
     (case status (fst (getPatchedXMLHttpRequest x)) of Some v \<Rightarrow> v | None \<Rightarrow> original)"

definition get_statusText :: "XMLHttpRequest \<Rightarrow> string \<Rightarrow> string" where
  "get_statusText x original =
     (case statusText (fst (getPatchedXMLHttpRequest x)) of Some v \<Rightarrow> v | None \<Rightarrow> original)"

definition get_responseURL :: "XMLHttpRequest \<Rightarrow> string \<Rightarrow> string" where
  "get_responseURL x original =
     (case responseUrl (fst (getPatchedXMLHttpRequest x)) of Some v \<Rightarrow> v | None \<Rightarrow> original)"

text \<open>
  \<^verbatim>\<open>new DOMParser().parseFromString(text, "application/xml")\<close> does not throw on a
  text that is not well-formed XML: it returns a document all the same, whose root
  element is \<^verbatim>\<open>parsererror\<close>. Which texts are well-formed is the host's XML parser's
  matter (\<open>well_formed\<close>); a document is known here by the text it was parsed from.
\<close>

datatype xml_document = XMLDocument string | ParserErrorDocument string

definition DOMParser_parseFromString ::
  "(string \<Rightarrow> bool) \<Rightarrow> string \<Rightarrow> js_error + xml_document" where
  "DOMParser_parseFromString well_formed t =
     Inr (if well_formed t then XMLDocument t else ParserErrorDocument t)"

text \<open>
  The value of \<^verbatim>\<open>xhr.response\<close>. The host's decoder and parsers are parameters; each
  returns its result or throws. The parser the getter calls for the type
  \<^verbatim>\<open>document\<close> is \<open>DOMParser_parseFromString\<close>.
\<close>

datatype ('d, 'j) response_value =
    Text string
  | ArrayBuffer Uint8Array
  | Blob Uint8Array
  | Document 'd
  | Json 'j
  | Null

text \<open>The \<^verbatim>\<open>switch\<close> inside the \<^verbatim>\<open>try\<close> block of the \<^verbatim>\<open>response\<close> getter.\<close>

definition response_switch ::
  "(Uint8Array \<Rightarrow> js_error + string) \<Rightarrow> (string \<Rightarrow> js_error + 'd) \<Rightarrow> (string \<Rightarrow> js_error + 'j)
     \<Rightarrow> string \<Rightarrow> Uint8Array \<Rightarrow> js_error + ('d, 'j) response_value" where
  "response_switch decode parseFromString JSON_parse rtype buffer =
     (if rtype = [] \<or> rtype = ''text'' then
        (case decode buffer of Inl e \<Rightarrow> Inl e | Inr t \<Rightarrow> Inr (Text t))
      else if rtype = ''arraybuffer'' then Inr (ArrayBuffer buffer)
      else if rtype = ''blob'' then Inr (Blob buffer)
      else if rtype = ''document'' then
        (case decode buffer of
           Inl e \<Rightarrow> Inl e
         | Inr t \<Rightarrow> (case parseFromString t of Inl e \<Rightarrow> Inl e | Inr d \<Rightarrow> Inr (Document d)))
      else if rtype = ''json'' then
        (case decode buffer of
           Inl e \<Rightarrow> Inl e
         | Inr t \<Rightarrow> (case JSON_parse t of Inl e \<Rightarrow> Inl e | Inr j \<Rightarrow> Inr (Json j)))
      else Inr Null)"

text \<open>
  The \<^verbatim>\<open>response\<close> getter: without a buffer the original getter's value, else the
  \<^verbatim>\<open>switch\<close> with every exception caught and turned into \<^verbatim>\<open>null\<close>. \<open>Inl\<close> would be
  an exception thrown to the reader.
\<close>

definition get_response ::
  "(Uint8Array \<Rightarrow> js_error + string) \<Rightarrow> (string \<Rightarrow> js_error + 'd) \<Rightarrow> (string \<Rightarrow> js_error + 'j)
     \<Rightarrow> XMLHttpRequest \<Rightarrow> ('d, 'j) response_value \<Rightarrow> js_error + ('d, 'j) response_value" where
  "get_response decode parseFromString JSON_parse x original =
     (case responseBuffer (fst (getPatchedXMLHttpRequest x)) of
        None \<Rightarrow> Inr original
      | Some buffer \<Rightarrow>
          (case response_switch decode parseFromString JSON_parse (responseType x) buffer of
             Inl e \<Rightarrow> Inr Null
           | Inr v \<Rightarrow> Inr v))"

text \<open>The \<^verbatim>\<open>responseText\<close> getter decodes \<^verbatim>\<open>responseBufferInternal\<close>, outside any \<^verbatim>\<open>try\<close>.\<close>

definition get_responseText ::
  "(Uint8Array \<Rightarrow> js_error + string) \<Rightarrow> XMLHttpRequest \<Rightarrow> string \<Rightarrow> js_error + string" where
  "get_responseText decode x original =
     (case responseBufferInternal (fst (getPatchedXMLHttpRequest x)) of
        Some internal \<Rightarrow> decode internal
      | None \<Rightarrow> Inr original)"

section \<open>Initial states and the notions the theorems use\<close>

text \<open>
  The module state when the module has just been loaded, on a host whose
  \<^verbatim>\<open>XMLHttpRequest.prototype\<close> has the six getters and the five methods, and a new
  \<^verbatim>\<open>XMLHttpRequest\<close>.
\<close>

definition initial_world :: world where
  "initial_world =
     \<lparr>hooks = [], hooked = False,
      prototype = (\<lambda>p. if p \<in> set patched_getters then Accessor Native
                        else if p \<in> set patched_methods then Function Native
                        else Absent),
      logged = [], hook_calls = []\<rparr>"

definition fresh_instance :: XMLHttpRequest where
  "fresh_instance =
     \<lparr>patchXhrKey = None, responseType = [], controllers = 0, aborted = [],
      dispatched = [], native_calls = []\<rparr>"

text \<open>
  A host for the examples: every URL they use is absolute and is its own absolute
  form, and the table forbids \<^verbatim>\<open>cookie\<close>, \<^verbatim>\<open>host\<close> and the names that start with
  \<^verbatim>\<open>sec-\<close>.
\<close>

definition example_host :: host where
  "example_host =
     \<lparr>URL_href = Inr, Request_url = Inr,
      forbidden_request_header =
        (\<lambda>name val. name \<in> set [''cookie'', ''host''] \<or> take 4 name = ''sec-'')\<rparr>"

text \<open>Every patched property is the host's own, or is wrapped exactly once.\<close>

definition native_surface :: "world \<Rightarrow> bool" where
  "native_surface w =
     (list_all (\<lambda>p. prototype w p = Accessor Native) patched_getters
      \<and> list_all (\<lambda>p. prototype w p = Function Native) patched_methods)"

definition wrapped_once :: "world \<Rightarrow> bool" where
  "wrapped_once w =
     (list_all (\<lambda>p. prototype w p = Accessor (Wrapper Native)) patched_getters
      \<and> list_all (\<lambda>p. prototype w p = Function (Wrapper Native)) patched_methods)"

text \<open>
  A sequence of \<^verbatim>\<open>insertXhrHook\<close> calls, each with its name, hook and options; a call
  that throws leaves the module state it had reached.
\<close>

definition insert_all :: "(string \<times> XhrHook \<times> InsertXhrHookOptions) list \<Rightarrow> world \<Rightarrow> world" where
  "insert_all ins w =
     foldl (\<lambda>w (name, hook, options). snd (insertXhrHook name hook options w)) w ins"

text \<open>The module state after \<^verbatim>\<open>insertXhrHook("test", () => undefined)\<close>.\<close>

definition one_hook_world :: world where
  "one_hook_world = snd (insertXhrHook ''test'' (\<lambda>request. None) None initial_world)"





text \<open>
  Three hooks registered in this order, of which only the second answers (with a
  responder whose promise stays pending), and an instance after
  \<^verbatim>\<open>open("GET", "https://example.com/")\<close>.
\<close>

definition three_hook_world :: world where
  "three_hook_world =
     insert_all [(''hook1'', (\<lambda>request. None), None),
                 (''hook2'', (\<lambda>request. Some (\<lambda>signal. Inr Pending)), None),
                 (''hook3'', (\<lambda>request. None), None)] initial_world"

definition opened_instance :: XMLHttpRequest where
  "opened_instance = snd (xhr_open ''GET'' ''https://example.com/'' [] (initial_world, fresh_instance))"

text \<open>
  The cumulative byte counts the progress events carry for a list of chunks, starting
  from \<open>n\<close>, the pair of events dispatched per chunk, and the chunks of a response
  body (none when the body is \<^verbatim>\<open>null\<close>).
\<close>

fun offsets :: "nat \<Rightarrow> Uint8Array list \<Rightarrow> nat list" where
  "offsets n [] = []"
| "offsets n (c # cs) = (n + length c) # offsets (n + length c) cs"

definition progress_events :: "nat \<Rightarrow> Uint8Array list \<Rightarrow> event list" where
  "progress_events n cs =
     concat (map (\<lambda>k. [Event ''readystatechange'', ProgressEvent ''progress'' k]) (offsets n cs))"

definition body_chunks :: "Response \<Rightarrow> Uint8Array list" where
  "body_chunks r = (case resp_body r of None \<Rightarrow> [] | Some reader \<Rightarrow> chunks reader)"

text \<open>
  The run at the point where \<^verbatim>\<open>startXhrWithResponseCallback\<close> calls the responder:
  \<^verbatim>\<open>readyState\<close> is 1, one \<^verbatim>\<open>readystatechange\<close> was dispatched and the start was
  logged.
\<close>

definition started :: "PatchedXMLHttpRequestInstance \<Rightarrow> run" where
  "started p =
     \<lparr>patch = p\<lparr>readyState := Some 1\<rparr>,
      events = [Event ''readystatechange''],
      logs = [Log (''Starting XMLHttpRequest with method: '' @ template (xhr_method p)
                   @ '', url: '' @ template (url p))]\<rparr>"

text \<open>
  The three outcomes of the loop body in closed form: the array allocated when the
  chunk does not fit (the bytes of \<^verbatim>\<open>buffer\<close>, then zeros), an array with the chunk
  written at the offset, and the run after a chunk was appended.
\<close>

definition grown :: "Uint8Array \<Rightarrow> Uint8Array \<Rightarrow> Uint8Array" where
  "grown buffer v = buffer @ drop (length buffer) (replicate ((length buffer + length v) * 2) 0)"

definition chunk_written :: "Uint8Array \<Rightarrow> Uint8Array \<Rightarrow> nat \<Rightarrow> Uint8Array" where
  "chunk_written internal v offset = take offset internal @ v @ drop (offset + length v) internal"

definition chunk_run :: "Uint8Array \<Rightarrow> nat \<Rightarrow> run \<Rightarrow> run" where
  "chunk_run written offset1 r =
     r\<lparr>patch := (patch r)\<lparr>responseBufferInternal := Some written,
                             responseBuffer := Some (take offset1 written),
                             readyState := Some 3\<rparr>,
       logs := logs r @ [Log (''XMLHttpRequest loading, received '' @ decimal offset1 @ '' bytes'')],
       events := events r @ [Event ''readystatechange'', ProgressEvent ''progress'' offset1]\<rparr>"

text \<open>
  Example responses, each with a \<^verbatim>\<open>Content-Length\<close> header: the five bytes of
  \<^verbatim>\<open>Hello\<close> in two chunks; three one-byte chunks against a declared length of 1; two
  bytes against a declared length of 4 on a stream that then stalls; five bytes in
  three chunks against a declared length of 0; two bytes in two chunks against a
  declared length of 8; and the two characters \<^verbatim>\<open><a\<close>, which are not well-formed
  XML.
\<close>

definition hello_response :: Response where
  "hello_response =
     \<lparr>resp_status = 201, resp_statusText = ''Created'',
      resp_headers = [(''content-length'', ''5'')], resp_url = ''https://example.com/'',
      resp_body = Some \<lparr>chunks = [[0x48, 0x65, 0x6C], [0x6C, 0x6F]], ending = Closes\<rparr>\<rparr>"

definition three_chunk_response :: Response where
  "three_chunk_response =
     \<lparr>resp_status = 200, resp_statusText = ''OK'',
      resp_headers = [(''content-length'', ''1'')], resp_url = ''https://example.com/'',
      resp_body = Some \<lparr>chunks = [[0x61], [0x62], [0x63]], ending = Closes\<rparr>\<rparr>"

definition slow_response :: Response where
  "slow_response =
     \<lparr>resp_status = 200, resp_statusText = ''OK'',
      resp_headers = [(''content-length'', ''4'')], resp_url = ''https://example.com/'',
      resp_body = Some \<lparr>chunks = [[0x68, 0x69]], ending = Stalls\<rparr>\<rparr>"

definition burst_response :: Response where
  "burst_response =
     \<lparr>resp_status = 200, resp_statusText = ''OK'',
      resp_headers = [(''content-length'', ''0'')], resp_url = ''https://example.com/'',
      resp_body = Some \<lparr>chunks = [[1, 2], [3, 4], [5]], ending = Closes\<rparr>\<rparr>"

definition roomy_response :: Response where
  "roomy_response =
     \<lparr>resp_status = 200, resp_statusText = ''OK'',
      resp_headers = [(''content-length'', ''8'')], resp_url = ''https://example.com/'',
      resp_body = Some \<lparr>chunks = [[0x68], [0x69]], ending = Closes\<rparr>\<rparr>"

definition malformed_response :: Response where
  "malformed_response =
     \<lparr>resp_status = 200, resp_statusText = ''OK'',
      resp_headers = [(''content-length'', ''2''), (''content-type'', ''application/xml'')],
      resp_url = ''https://example.com/'',
      resp_body = Some \<lparr>chunks = [[0x3C, 0x61]], ending = Closes\<rparr>\<rparr>"

text \<open>
  The side record of the opened instance, and a registry whose only hook answers with
  a responder that rejects, as the repository's abort test does.
\<close>

definition opened_patch :: PatchedXMLHttpRequestInstance where
  "opened_patch = fst (getPatchedXMLHttpRequest opened_instance)"

definition aborting_hook_world :: world where
  "aborting_hook_world =
     insert_all [(''test'',
                  (\<lambda>request. Some (\<lambda>signal. Inr (Rejected (DOMException ''Aborted'' ''AbortError'')))),
                  None)] initial_world"

text \<open>
  A decoder for bytes in the ASCII range (where UTF-8 is ASCII) and a JSON parser that
  rejects every input, to run the getters on; and the opened instance after a hooked
  lifecycle for the response \<^verbatim>\<open>Hello\<close> has completed.
\<close>

definition ascii_decode :: "Uint8Array \<Rightarrow> js_error + string" where
  "ascii_decode bytes = Inr (map (\<lambda>b. char_of (unat b)) bytes)"

definition no_parse :: "string \<Rightarrow> js_error + unit" where
  "no_parse t = Inl (SyntaxError ''Unexpected end of input'')"

definition completed_instance :: XMLHttpRequest where
  "completed_instance =
     snd (snd (startXhrWithResponseCallback (\<lambda>signal. Inr (Resolved hello_response))
                 (initial_world, opened_instance)))"

section \<open>The registry and the installer\<close>

lemma logger_simps [simp]:
  "hooks (logger e w) = hooks w"
  "hooked (logger e w) = hooked w"
  "prototype (logger e w) = prototype w"
  "hook_calls (logger e w) = hook_calls w"
  "logged (logger e w) = logged w @ [e]"
  by (simp_all add: logger_def)

lemma hookXhrIfNeeded_hooked:
  "hooked w \<Longrightarrow>
   hookXhrIfNeeded w = (None, logger (Warn ''XMLHttpRequest is already hooked, skipping.'') w)"
  by (simp add: hookXhrIfNeeded_def)

lemma hookXhrIfNeeded_first:
  assumes "\<not> hooked w" and "native_surface w"
  shows "fst (hookXhrIfNeeded w) = None \<and> hooked (snd (hookXhrIfNeeded w))
       \<and> wrapped_once (snd (hookXhrIfNeeded w))
       \<and> hooks (snd (hookXhrIfNeeded w)) = hooks w"
  using assms
  by (simp add: hookXhrIfNeeded_def native_surface_def wrapped_once_def patched_getters_def
      patched_methods_def patchGetter_def patchMethod_def)

lemma insertXhrHook_hooked_after:
  "hooked w \<Longrightarrow> hooked (snd (insertXhrHook name hook options w))"
  by (simp add: insertXhrHook_def hookXhrIfNeeded_hooked Let_def
      split: option.splits on_exists.splits)

lemma insertXhrHook_prototype:
  "hooked w \<Longrightarrow> prototype (snd (insertXhrHook name hook options w)) = prototype w"
  by (simp add: insertXhrHook_def hookXhrIfNeeded_hooked Let_def
      split: option.splits on_exists.splits)

lemma insert_all_hooked:
  "hooked w \<Longrightarrow> hooked (insert_all ins w) \<and> prototype (insert_all ins w) = prototype w"
  unfolding insert_all_def
proof (induction ins arbitrary: w)
  case Nil
  then show ?case by simp
next
  case (Cons a ins)
  obtain name hook options where a: "a = (name, hook, options)" by (cases a)
  from Cons.prems have h: "hooked (snd (insertXhrHook name hook options w))"
    by (rule insertXhrHook_hooked_after)
  from Cons.IH [OF h] Cons.prems show ?case
    by (simp add: a insertXhrHook_prototype)
qed

lemma insertXhrHook_first:
  assumes "\<not> hooked w" and "native_surface w"
  shows "hooked (snd (insertXhrHook name hook options w))
       \<and> prototype (snd (insertXhrHook name hook options w))
           = prototype (snd (hookXhrIfNeeded w))"
proof -
  obtain w1 where w1: "hookXhrIfNeeded w = (None, w1)"
    using hookXhrIfNeeded_first [OF assms] by (cases "hookXhrIfNeeded w") auto
  have "hooked w1" using hookXhrIfNeeded_first [OF assms] w1 by simp
  then show ?thesis
    by (simp add: insertXhrHook_def w1 Let_def split: option.splits on_exists.splits)
qed

lemma initial_world_first:
  "\<not> hooked initial_world \<and> native_surface initial_world"
  by (simp add: initial_world_def native_surface_def patched_getters_def patched_methods_def)

lemma one_hook_world_simps:
  "hooked one_hook_world" "hooks one_hook_world = [(''test'', (\<lambda>request. None))]"
proof -
  have f: "\<not> hooked initial_world" "native_surface initial_world"
    using initial_world_first by simp_all
  obtain w1 where w1: "hookXhrIfNeeded initial_world = (None, w1)"
    using hookXhrIfNeeded_first [OF f] by (cases "hookXhrIfNeeded initial_world") auto
  have p: "hooked w1" "hooks w1 = []"
    using hookXhrIfNeeded_first [OF f] w1 by (simp_all add: initial_world_def)
  show "hooked one_hook_world"
    using p by (simp add: one_hook_world_def insertXhrHook_def w1 Let_def Map_has_def)
  show "hooks one_hook_world = [(''test'', (\<lambda>request. None))]"
    using p by (simp add: one_hook_world_def insertXhrHook_def w1 Let_def Map_has_def Map_set_def)
qed

text \<open>
  Claim C9. On a host surface with the six getters and the five methods, the first
  run of the installer sets the marker and wraps each of them once. A second run finds
  the marker, logs the warning and changes nothing else, so the surface is the same.
  After any non-empty sequence of \<^verbatim>\<open>insertXhrHook\<close> calls, each of which runs the
  installer, every getter and method is still wrapped exactly once.
\<close>

theorem C9_installation_idempotent:
  assumes "\<not> hooked w" and "native_surface w" and "ins \<noteq> []"
  shows "wrapped_once (snd (hookXhrIfNeeded w))
       \<and> hookXhrIfNeeded (snd (hookXhrIfNeeded w)) =
           (None, logger (Warn ''XMLHttpRequest is already hooked, skipping.'')
                    (snd (hookXhrIfNeeded w)))
       \<and> prototype (snd (hookXhrIfNeeded (snd (hookXhrIfNeeded w))))
           = prototype (snd (hookXhrIfNeeded w))
       \<and> wrapped_once (insert_all ins w)"
proof -
  let ?w1 = "snd (hookXhrIfNeeded w)"
  have first: "hooked ?w1" "wrapped_once ?w1"
    using hookXhrIfNeeded_first [OF assms(1,2)] by simp_all
  have second: "hookXhrIfNeeded ?w1 =
      (None, logger (Warn ''XMLHttpRequest is already hooked, skipping.'') ?w1)"
    using first(1) by (rule hookXhrIfNeeded_hooked)
  obtain a rest where ins: "ins = a # rest" using assms(3) by (cases ins) auto
  obtain name hook options where a: "a = (name, hook, options)" by (cases a)
  let ?w2 = "snd (insertXhrHook name hook options w)"
  have w2: "hooked ?w2" "prototype ?w2 = prototype ?w1"
    using insertXhrHook_first [OF assms(1,2)] by simp_all
  have "insert_all ins w = insert_all rest ?w2"
    by (simp add: insert_all_def ins a)
  then have "prototype (insert_all ins w) = prototype ?w1"
    using insert_all_hooked [OF w2(1), of rest] w2(2) by simp
  then have "wrapped_once (insert_all ins w)"
    using first(2) by (simp add: wrapped_once_def)
  with first second show ?thesis by simp
qed

text \<open>
  The witness: from the initial module state, three insertions (a new name, a second
  name with \<^verbatim>\<open>replace\<close>, the first name again with \<^verbatim>\<open>error\<close>).
\<close>

theorem C9_installation_idempotent_witness:
  "\<not> hooked initial_world \<and> native_surface initial_world
   \<and> wrapped_once (snd (hookXhrIfNeeded initial_world))
   \<and> hookXhrIfNeeded (snd (hookXhrIfNeeded initial_world)) =
       (None, logger (Warn ''XMLHttpRequest is already hooked, skipping.'')
                (snd (hookXhrIfNeeded initial_world)))
   \<and> wrapped_once
       (insert_all [(''a'', (\<lambda>r. None), None), (''b'', (\<lambda>r. None), Some (Some OnReplace)),
                    (''a'', (\<lambda>r. None), Some (Some OnError))] initial_world)"
proof -
  have a: "\<not> hooked initial_world" using initial_world_first by simp
  have b: "native_surface initial_world" using initial_world_first by simp
  show ?thesis
    using a b C9_installation_idempotent [OF a b,
        of "[(''a'', (\<lambda>r. None), None), (''b'', (\<lambda>r. None), Some (Some OnReplace)),
             (''a'', (\<lambda>r. None), Some (Some OnError))]"]
    by simp
qed

lemma trial_frame:
  "hooks (snd (trial hs request w)) = hooks w
   \<and> hooked (snd (trial hs request w)) = hooked w
   \<and> prototype (snd (trial hs request w)) = prototype w"
  by (induction hs request w rule: trial.induct) (simp_all add: Let_def split: option.splits)

lemma trial_none:
  "\<forall>(n, h) \<in> set hs. h request = None \<Longrightarrow>
   fst (trial hs request w) = None
   \<and> hook_calls (snd (trial hs request w)) = hook_calls w @ map fst hs"
  by (induction hs request w rule: trial.induct) (simp_all add: Let_def split: option.splits)

lemma trial_first:
  "\<forall>(n, h) \<in> set pre. h request = None \<Longrightarrow> hook request = Some cb \<Longrightarrow>
   fst (trial (pre @ (name, hook) # post) request w) = Some cb
   \<and> hook_calls (snd (trial (pre @ (name, hook) # post) request w))
       = hook_calls w @ map fst pre @ [name]"
proof (induction pre arbitrary: w)
  case Nil
  then show ?case by (simp add: Let_def)
next
  case (Cons a pre)
  obtain n h where a: "a = (n, h)" by (cases a)
  from Cons.prems have hn: "h request = None" by (simp add: a)
  from Cons.prems have rest: "\<forall>(n, h) \<in> set pre. h request = None" by simp
  show ?case
    using Cons.IH [OF rest Cons.prems(2)] hn by (simp add: a Let_def)
qed

text \<open>What one hook does to the module state when it does not answer.\<close>

lemma trial_independent_of_log:
  "fst (trial hs request w) = fst (trial hs request w')"
proof (induction hs arbitrary: w w')
  case Nil
  then show ?case by simp
next
  case (Cons a hs)
  obtain n h where a: "a = (n, h)" by (cases a)
  show ?case
  proof (cases "h request")
    case None
    then show ?thesis
      using Cons.IH [of "logger (Log (''Hook '' @ quoted n @ '' did not return a response.''))
                 ((logger (Log (''Calling hook '' @ quoted n)) w)
                    \<lparr>hook_calls := hook_calls w @ [n]\<rparr>)"
                "logger (Log (''Hook '' @ quoted n @ '' did not return a response.''))
                 ((logger (Log (''Calling hook '' @ quoted n)) w')
                    \<lparr>hook_calls := hook_calls w' @ [n]\<rparr>)"]
      by (simp add: a Let_def)
  next
    case (Some cb)
    then show ?thesis by (simp add: a Let_def)
  qed
qed

lemma trial_calls_independent:
  "hook_calls w = hook_calls w' \<Longrightarrow>
   hook_calls (snd (trial hs request w)) = hook_calls (snd (trial hs request w'))"
proof (induction hs arbitrary: w w')
  case Nil
  then show ?case by simp
next
  case (Cons a hs)
  obtain n h where a: "a = (n, h)" by (cases a)
  show ?case
  proof (cases "h request")
    case None
    then show ?thesis
      using Cons.IH [of "logger (Log (''Hook '' @ quoted n @ '' did not return a response.''))
                 ((logger (Log (''Calling hook '' @ quoted n)) w)
                    \<lparr>hook_calls := hook_calls w @ [n]\<rparr>)"
                "logger (Log (''Hook '' @ quoted n @ '' did not return a response.''))
                 ((logger (Log (''Calling hook '' @ quoted n)) w')
                    \<lparr>hook_calls := hook_calls w' @ [n]\<rparr>)"]
        Cons.prems
      by (simp add: a Let_def)
  next
    case (Some cb)
    then show ?thesis using Cons.prems by (simp add: a Let_def)
  qed
qed

text \<open>
  Claim C4. In a module state where the interception layer is installed (it is, as
  soon as \<^verbatim>\<open>insertXhrHook\<close> has been called once) and \<open>name\<close> is registered,
  \<^verbatim>\<open>insertXhrHook(name, hook, { onExists: "error" })\<close> throws the error
  \<^verbatim>\<open>Hook with name "name" already exists.\<close>; the only change to the module state is
  the installer's warning in the log. The registry is the same map, and a dispatch
  in the state after the throw picks the same responder and calls the same hooks in
  the same order as a dispatch in the state before it.
\<close>

theorem C4_insert_error_keeps_registry:
  assumes "hooked w" and "Map_has (hooks w) name"
  shows "insertXhrHook name hook (Some (Some OnError)) w =
           (Some (Error (''Hook with name '' @ quoted name @ '' already exists.'')),
            logger (Warn ''XMLHttpRequest is already hooked, skipping.'') w)
       \<and> hooks (snd (insertXhrHook name hook (Some (Some OnError)) w)) = hooks w
       \<and> fst (trial (hooks (snd (insertXhrHook name hook (Some (Some OnError)) w))) request
               (snd (insertXhrHook name hook (Some (Some OnError)) w)))
           = fst (trial (hooks w) request w)
       \<and> hook_calls (snd (trial (hooks (snd (insertXhrHook name hook (Some (Some OnError)) w)))
               request (snd (insertXhrHook name hook (Some (Some OnError)) w))))
           = hook_calls (snd (trial (hooks w) request w))"
proof -
  let ?w' = "logger (Warn ''XMLHttpRequest is already hooked, skipping.'') w"
  have eq: "insertXhrHook name hook (Some (Some OnError)) w =
           (Some (Error (''Hook with name '' @ quoted name @ '' already exists.'')), ?w')"
    using assms by (simp add: insertXhrHook_def hookXhrIfNeeded_hooked computedOptions_def)
  have "fst (trial (hooks w) request ?w') = fst (trial (hooks w) request w)"
    by (rule trial_independent_of_log)
  moreover have "hook_calls (snd (trial (hooks w) request ?w'))
      = hook_calls (snd (trial (hooks w) request w))"
    by (rule trial_calls_independent) simp
  ultimately show ?thesis by (simp add: eq)
qed

text \<open>
  The witness is the repository's test: \<^verbatim>\<open>"test"\<close> is registered, and a second
  insertion under the same name with \<^verbatim>\<open>onExists: "error"\<close> throws and leaves the first
  hook registered.
\<close>

theorem C4_insert_error_keeps_registry_witness:
  "hooked one_hook_world \<and> Map_has (hooks one_hook_world) ''test''
   \<and> insertXhrHook ''test'' (\<lambda>request. Some (\<lambda>signal. Inr Pending)) (Some (Some OnError))
         one_hook_world =
       (Some (Error (''Hook with name '' @ quoted ''test'' @ '' already exists.'')),
        logger (Warn ''XMLHttpRequest is already hooked, skipping.'') one_hook_world)
   \<and> hooks (snd (insertXhrHook ''test'' (\<lambda>request. Some (\<lambda>signal. Inr Pending))
                   (Some (Some OnError)) one_hook_world))
       = [(''test'', (\<lambda>request. None))]"
proof -
  have a: "hooked one_hook_world" by (rule one_hook_world_simps)
  have b: "Map_has (hooks one_hook_world) ''test''"
    by (simp add: one_hook_world_simps Map_has_def)
  show ?thesis
    using a b C4_insert_error_keeps_registry [OF a b,
        of "(\<lambda>request. Some (\<lambda>signal. Inr Pending))"]
    by (simp add: one_hook_world_simps)
qed

section \<open>Captured headers and the request translator\<close>

lemma getPatched_Some [simp]:
  "patchXhrKey x = Some p \<Longrightarrow> getPatchedXMLHttpRequest x = (p, x)"
  by (simp add: getPatchedXMLHttpRequest_def)

lemma getPatched_frame [simp]:
  "native_calls (snd (getPatchedXMLHttpRequest x)) = native_calls x"
  "dispatched (snd (getPatchedXMLHttpRequest x)) = dispatched x"
  "responseType (snd (getPatchedXMLHttpRequest x)) = responseType x"
  "aborted (snd (getPatchedXMLHttpRequest x)) = aborted x"
  "patchXhrKey (snd (getPatchedXMLHttpRequest x)) = Some (fst (getPatchedXMLHttpRequest x))"
  by (simp_all add: getPatchedXMLHttpRequest_def Let_def split: option.splits)














section \<open>The request built at send time\<close>

lemma same_name_refl [simp]: "same_name a a"
  by (simp add: same_name_def)

lemma same_name_trans: "same_name a b \<Longrightarrow> same_name b c = same_name a c"
  by (simp add: same_name_def)


lemma header_values_Nil [simp]: "header_values [] n = []"
  by (simp add: header_values_def)


lemma dropWhile_rev_dropWhile:
  "dropWhile P (rev (dropWhile P (rev (dropWhile P xs)))) = rev (dropWhile P (rev (dropWhile P xs)))
   \<and> dropWhile P (rev (rev (dropWhile P (rev (dropWhile P xs))))) = dropWhile P (rev (dropWhile P xs))"
proof -
  let ?ys = "dropWhile P xs"
  let ?zs = "dropWhile P (rev ?ys)"
  have z: "dropWhile P (rev ?zs) = rev ?zs"
  proof (cases "?zs = []")
    case True
    then show ?thesis by (simp only: rev.simps dropWhile.simps)
  next
    case False
    then have ne: "?ys \<noteq> []" by (metis dropWhile.simps(1) rev.simps(1))
    then have h: "\<not> P (hd ?ys)" by (simp add: hd_dropWhile)
    from False obtain us where "rev ?ys = us @ ?zs"
      by (metis takeWhile_dropWhile_id)
    then have "?ys = rev ?zs @ rev us" by (metis rev_append rev_rev_ident)
    with False have "hd (rev ?zs) = hd ?ys" by (metis hd_append2 rev_is_Nil_conv)
    with h have "\<not> P (hd (rev ?zs))" by simp
    with False show ?thesis by (cases "rev ?zs") auto
  qed
  have "dropWhile P (rev (rev ?zs)) = ?zs" by (simp add: dropWhile_idem)
  with z show ?thesis by simp
qed

lemma normalize_value_idem [simp]: "normalize_value (normalize_value v) = normalize_value v"
  using dropWhile_rev_dropWhile [of is_http_whitespace v]
  by (simp add: normalize_value_def)














section \<open>Dispatch in the patched send\<close>

lemma startXhr_frame:
  "hook_calls (fst (snd (startXhrWithResponseCallback cb (w, x)))) = hook_calls w"
  "hooks (fst (snd (startXhrWithResponseCallback cb (w, x)))) = hooks w"
  "native_calls (snd (snd (startXhrWithResponseCallback cb (w, x)))) = native_calls x"
  by (simp_all add: startXhrWithResponseCallback_def Let_def case_prod_beta)

lemma startXhr_result:
  "startXhrWithResponseCallback cb (w, x) =
     (fst (run_responder cb (fst (getPatchedXMLHttpRequest x))),
      w\<lparr>logged := logged w @ logs (snd (run_responder cb (fst (getPatchedXMLHttpRequest x))))\<rparr>,
      (snd (getPatchedXMLHttpRequest x))
        \<lparr>patchXhrKey := Some (patch (snd (run_responder cb (fst (getPatchedXMLHttpRequest x))))),
         dispatched := dispatched x
            @ events (snd (run_responder cb (fst (getPatchedXMLHttpRequest x))))\<rparr>)"
  by (simp add: startXhrWithResponseCallback_def Let_def case_prod_beta)

lemma xhr_send_answered:
  assumes "xhrToRequest env (fst (getPatchedXMLHttpRequest x)) BodyUndefined = Inr request"
    and "trial (hooks w) request w = (Some cb, w1)"
  shows "xhr_send env b (w, x) =
           (None, snd (startXhrWithResponseCallback cb (w1, snd (getPatchedXMLHttpRequest x))))"
  using assms by (simp add: xhr_send_def Let_def case_prod_beta)

lemma xhr_send_forwarded:
  assumes "xhrToRequest env (fst (getPatchedXMLHttpRequest x)) BodyUndefined = Inr request"
    and "trial (hooks w) request w = (None, w1)"
  shows "xhr_send env b (w, x) =
           (None,
            logger (Log ''No hooks returned a response, proceeding with original send.'') w1,
            (snd (getPatchedXMLHttpRequest x))\<lparr>native_calls := native_calls x @ [NativeSend b]\<rparr>)"
  using assms by (simp add: xhr_send_def Let_def case_prod_beta)

text \<open>
  Claim C3. Take a \<^verbatim>\<open>send\<close> on an instance for which the request can be built. If
  the registry is \<open>pre @ (name, hook) # post\<close>, every hook of \<open>pre\<close> returns
  \<^verbatim>\<open>undefined\<close> and \<open>hook\<close> returns a responder, then the hooks called are those of
  \<open>pre\<close> in insertion order and then \<open>name\<close> (no hook of \<open>post\<close> is called), the state
  machine is started with that responder, and the original \<^verbatim>\<open>send\<close> is not called. If
  every registered hook returns \<^verbatim>\<open>undefined\<close>, all of them are called in insertion order
  and the original \<^verbatim>\<open>send\<close> is called with the body argument it was given; nothing else
  of the instance changes.
\<close>

theorem C3_hooks_trialed_in_order:
  assumes "xhrToRequest env (fst (getPatchedXMLHttpRequest x)) BodyUndefined = Inr request"
  shows "((hooks w = pre @ (name, hook) # post \<and> (\<forall>(n, h) \<in> set pre. h request = None)
            \<and> hook request = Some cb) \<longrightarrow>
          xhr_send env b (w, x) =
             (None, snd (startXhrWithResponseCallback cb
                           (snd (trial (hooks w) request w), snd (getPatchedXMLHttpRequest x))))
          \<and> hook_calls (fst (snd (xhr_send env b (w, x)))) = hook_calls w @ map fst pre @ [name]
          \<and> native_calls (snd (snd (xhr_send env b (w, x)))) = native_calls x)
       \<and> ((\<forall>(n, h) \<in> set (hooks w). h request = None) \<longrightarrow>
          fst (xhr_send env b (w, x)) = None
          \<and> hook_calls (fst (snd (xhr_send env b (w, x)))) = hook_calls w @ map fst (hooks w)
          \<and> snd (snd (xhr_send env b (w, x))) =
               (snd (getPatchedXMLHttpRequest x))\<lparr>native_calls := native_calls x @ [NativeSend b]\<rparr>)"
proof (intro conjI impI)
  assume h: "hooks w = pre @ (name, hook) # post \<and> (\<forall>(n, h) \<in> set pre. h request = None)
            \<and> hook request = Some cb"
  then have none: "\<forall>(n, h) \<in> set pre. h request = None" and some: "hook request = Some cb"
    and hs: "hooks w = pre @ (name, hook) # post" by simp_all
  obtain w1 where t: "trial (hooks w) request w = (Some cb, w1)"
    and c: "hook_calls w1 = hook_calls w @ map fst pre @ [name]"
    using trial_first [where pre = pre and request = request and hook = hook and cb = cb
        and name = name and post = post and w = w] none some hs
    by (cases "trial (hooks w) request w") auto
  have s: "xhr_send env b (w, x) =
           (None, snd (startXhrWithResponseCallback cb (w1, snd (getPatchedXMLHttpRequest x))))"
    using assms t by (rule xhr_send_answered)
  show "xhr_send env b (w, x) =
             (None, snd (startXhrWithResponseCallback cb
                           (snd (trial (hooks w) request w), snd (getPatchedXMLHttpRequest x))))"
    using s t by simp
  show "hook_calls (fst (snd (xhr_send env b (w, x)))) = hook_calls w @ map fst pre @ [name]"
    using s c by (simp add: startXhr_frame)
  show "native_calls (snd (snd (xhr_send env b (w, x)))) = native_calls x"
    using s by (simp add: startXhr_frame)
next
  assume none: "\<forall>(n, h) \<in> set (hooks w). h request = None"
  obtain w1 where t: "trial (hooks w) request w = (None, w1)"
    and c: "hook_calls w1 = hook_calls w @ map fst (hooks w)"
    using trial_none [OF none, of w] by (cases "trial (hooks w) request w") auto
  have s: "xhr_send env b (w, x) =
           (None,
            logger (Log ''No hooks returned a response, proceeding with original send.'') w1,
            (snd (getPatchedXMLHttpRequest x))\<lparr>native_calls := native_calls x @ [NativeSend b]\<rparr>)"
    using assms t by (rule xhr_send_forwarded)
  show "fst (xhr_send env b (w, x)) = None" using s by simp
  show "hook_calls (fst (snd (xhr_send env b (w, x)))) = hook_calls w @ map fst (hooks w)"
    using s c by simp
  show "snd (snd (xhr_send env b (w, x))) =
               (snd (getPatchedXMLHttpRequest x))\<lparr>native_calls := native_calls x @ [NativeSend b]\<rparr>"
    using s by simp
qed


lemma patch_all_frame:
  assumes "\<And>f v v'. f \<in> set fs \<Longrightarrow> f v = Inr v' \<Longrightarrow>
             hooks v' = hooks v \<and> hook_calls v' = hook_calls v \<and> logged v' = logged v"
  shows "hooks (snd (patch_all fs w)) = hooks w \<and> hook_calls (snd (patch_all fs w)) = hook_calls w
       \<and> logged (snd (patch_all fs w)) = logged w"
  using assms
proof (induction fs arbitrary: w)
  case Nil
  then show ?case by simp
next
  case (Cons f fs)
  show ?case
  proof (cases "f w")
    case (Inl e)
    then show ?thesis by simp
  next
    case (Inr w')
    have step: "hooks w' = hooks w \<and> hook_calls w' = hook_calls w \<and> logged w' = logged w"
      using Cons.prems [of f w w'] Inr by simp
    have "hooks (snd (patch_all fs w')) = hooks w' \<and> hook_calls (snd (patch_all fs w')) = hook_calls w'
       \<and> logged (snd (patch_all fs w')) = logged w'"
      by (rule Cons.IH) (use Cons.prems in auto)
    with step Inr show ?thesis by simp
  qed
qed

lemma hookXhrIfNeeded_frame:
  "hooks (snd (hookXhrIfNeeded w)) = hooks w \<and> hook_calls (snd (hookXhrIfNeeded w)) = hook_calls w"
proof (cases "hooked w")
  case True
  then show ?thesis by (simp add: hookXhrIfNeeded_hooked)
next
  case False
  let ?fs = "map patchGetter patched_getters @ map patchMethod patched_methods"
  let ?w1 = "(logger (Log ''Hooking XMLHttpRequest'') w)\<lparr>hooked := True\<rparr>"
  have "hooks (snd (patch_all ?fs ?w1)) = hooks ?w1 \<and> hook_calls (snd (patch_all ?fs ?w1)) = hook_calls ?w1
       \<and> logged (snd (patch_all ?fs ?w1)) = logged ?w1"
    by (rule patch_all_frame)
       (auto simp add: patchGetter_def patchMethod_def split: property.splits)
  with False show ?thesis by (simp add: hookXhrIfNeeded_def)
qed

lemma insertXhrHook_hook_calls:
  "hook_calls (snd (insertXhrHook name hook options w)) = hook_calls w"
  using hookXhrIfNeeded_frame [of w]
  by (cases "hookXhrIfNeeded w")
     (auto simp add: insertXhrHook_def Let_def split: option.splits on_exists.splits)

lemma insertXhrHook_new:
  assumes "fst (hookXhrIfNeeded w) = None" and "\<not> Map_has (hooks w) name"
  shows "hooks (snd (insertXhrHook name hook options w)) = hooks w @ [(name, hook)]"
  using assms hookXhrIfNeeded_frame [of w]
  by (cases "hookXhrIfNeeded w")
     (auto simp add: insertXhrHook_def Let_def Map_set_def split: option.splits on_exists.splits)

lemma three_hook_world_simps:
  "hooks three_hook_world =
     [(''hook1'', (\<lambda>request. None)), (''hook2'', (\<lambda>request. Some (\<lambda>signal. Inr Pending))),
      (''hook3'', (\<lambda>request. None))]"
  "hook_calls three_hook_world = []"
proof -
  let ?w1 = "snd (insertXhrHook ''hook1'' (\<lambda>request. None) None initial_world)"
  let ?w2 = "snd (insertXhrHook ''hook2'' (\<lambda>request. Some (\<lambda>signal. Inr Pending)) None ?w1)"
  let ?w3 = "snd (insertXhrHook ''hook3'' (\<lambda>request. None) None ?w2)"
  have t: "three_hook_world = ?w3"
    by (simp add: three_hook_world_def insert_all_def)
  have f: "\<not> hooked initial_world" "native_surface initial_world"
    using initial_world_first by simp_all
  have i0: "fst (hookXhrIfNeeded initial_world) = None"
    using hookXhrIfNeeded_first [OF f] by simp
  have h1: "hooked ?w1" using insertXhrHook_first [OF f] by simp
  have h2: "hooked ?w2" using h1 by (rule insertXhrHook_hooked_after)
  have k0: "hooks initial_world = []" by (simp add: initial_world_def)
  have k1: "hooks ?w1 = [(''hook1'', (\<lambda>request. None))]"
    using insertXhrHook_new [OF i0, of "''hook1''"] k0 by (simp add: Map_has_def)
  have i1: "fst (hookXhrIfNeeded ?w1) = None" using h1 by (simp add: hookXhrIfNeeded_hooked)
  have k2: "hooks ?w2 = [(''hook1'', (\<lambda>request. None)),
                        (''hook2'', (\<lambda>request. Some (\<lambda>signal. Inr Pending)))]"
    using insertXhrHook_new [OF i1, of "''hook2''"] k1 by (simp add: Map_has_def)
  have i2: "fst (hookXhrIfNeeded ?w2) = None" using h2 by (simp add: hookXhrIfNeeded_hooked)
  have k3: "hooks ?w3 = [(''hook1'', (\<lambda>request. None)),
                        (''hook2'', (\<lambda>request. Some (\<lambda>signal. Inr Pending))),
                        (''hook3'', (\<lambda>request. None))]"
    using insertXhrHook_new [OF i2, of "''hook3''"] k2 by (simp add: Map_has_def)
  show "hooks three_hook_world =
     [(''hook1'', (\<lambda>request. None)), (''hook2'', (\<lambda>request. Some (\<lambda>signal. Inr Pending))),
      (''hook3'', (\<lambda>request. None))]"
    using k3 t by simp
  show "hook_calls three_hook_world = []"
    by (simp add: t insertXhrHook_hook_calls initial_world_def)
qed

lemma one_hook_world_calls: "hook_calls one_hook_world = []"
  by (simp add: one_hook_world_def insertXhrHook_hook_calls initial_world_def)

lemma opened_instance_request:
  "xhrToRequest example_host (fst (getPatchedXMLHttpRequest opened_instance)) BodyUndefined
     = Inr \<lparr>req_url = ''https://example.com/'', req_method = ''GET'', req_headers = [],
            req_body = BodyNull\<rparr>"
  by code_simp

lemma opened_instance_native:
  "native_calls opened_instance = [NativeOpen ''GET'' ''https://example.com/'' []]"
  by (simp add: opened_instance_def xhr_open_def Let_def case_prod_beta fresh_instance_def)

text \<open>
  The witness: three hooks of which only the second answers (the first two are called,
  the third is not, no original \<^verbatim>\<open>send\<close>), and a single hook that does not answer (the
  original \<^verbatim>\<open>send\<close> receives the body).
\<close>

theorem C3_hooks_trialed_in_order_witness:
  "hook_calls (fst (snd (xhr_send example_host BodyUndefined (three_hook_world, opened_instance))))
     = [''hook1'', ''hook2'']
   \<and> native_calls (snd (snd (xhr_send example_host BodyUndefined (three_hook_world, opened_instance))))
     = [NativeOpen ''GET'' ''https://example.com/'' []]
   \<and> hook_calls (fst (snd (xhr_send example_host (BodyText ''ping'') (one_hook_world, opened_instance))))
     = [''test'']
   \<and> native_calls (snd (snd (xhr_send example_host (BodyText ''ping'') (one_hook_world, opened_instance))))
     = [NativeOpen ''GET'' ''https://example.com/'' [], NativeSend (BodyText ''ping'')]"
proof -
  let ?request = "\<lparr>req_url = ''https://example.com/'', req_method = ''GET'', req_headers = [],
            req_body = BodyNull\<rparr>"
  have a: "hooks three_hook_world = [(''hook1'', (\<lambda>request. None))]
             @ (''hook2'', (\<lambda>request. Some (\<lambda>signal. Inr Pending))) # [(''hook3'', (\<lambda>request. None))]
           \<and> (\<forall>(n, h) \<in> set [(''hook1'', (\<lambda>request. None :: responder option))]. h ?request = None)
           \<and> (\<lambda>request. Some (\<lambda>signal. Inr Pending)) ?request = Some (\<lambda>signal. Inr Pending)"
    by (simp add: three_hook_world_simps)
  have b: "\<forall>(n, h) \<in> set (hooks one_hook_world). h ?request = None"
    by (simp add: one_hook_world_simps)
  have 1: "hook_calls (fst (snd (xhr_send example_host BodyUndefined (three_hook_world, opened_instance))))
     = hook_calls three_hook_world
         @ map fst [(''hook1'', (\<lambda>request :: Request. None :: responder option))] @ [''hook2'']
   \<and> native_calls (snd (snd (xhr_send example_host BodyUndefined (three_hook_world, opened_instance))))
     = native_calls opened_instance"
    by (rule C3_hooks_trialed_in_order [OF opened_instance_request, where w = three_hook_world
        and pre = "[(''hook1'', (\<lambda>request. None))]" and name = "''hook2''"
        and hook = "(\<lambda>request. Some (\<lambda>signal. Inr Pending))" and post = "[(''hook3'', (\<lambda>request. None))]"
        and cb = "(\<lambda>signal. Inr Pending)" and b = BodyUndefined,
        THEN conjunct1, THEN mp, OF a, THEN conjunct2])
  have 2: "hook_calls (fst (snd (xhr_send example_host (BodyText ''ping'') (one_hook_world, opened_instance))))
     = hook_calls one_hook_world @ map fst (hooks one_hook_world)
   \<and> snd (snd (xhr_send example_host (BodyText ''ping'') (one_hook_world, opened_instance)))
     = (snd (getPatchedXMLHttpRequest opened_instance))
         \<lparr>native_calls := native_calls opened_instance @ [NativeSend (BodyText ''ping'')]\<rparr>"
    by (rule C3_hooks_trialed_in_order [OF opened_instance_request, where w = one_hook_world
        and b = "BodyText ''ping''", THEN conjunct2, THEN mp, OF b, THEN conjunct2])
  from 1 2 show ?thesis
    by (simp add: three_hook_world_simps one_hook_world_simps one_hook_world_calls
        opened_instance_native)
qed

section \<open>The state machine\<close>

lemma Uint8Array_set_length:
  "Uint8Array_set target source at = Inr written \<Longrightarrow>
   length written = length target \<and> at + length source \<le> length target"
  by (auto simp add: Uint8Array_set_def split: if_splits)

lemma length_grown [simp]: "length (grown buffer v) = (length buffer + length v) * 2"
  by (simp add: grown_def)

lemma length_chunk_written [simp]:
  "offset + length v \<le> length internal \<Longrightarrow> length (chunk_written internal v offset) = length internal"
  by (simp add: chunk_written_def)

lemma on_chunk_fits:
  assumes "offset + length v \<le> length buffer"
  shows "on_chunk v buffer offset r =
           (None, chunk_written buffer v offset, offset + length v,
            chunk_run (chunk_written buffer v offset) (offset + length v) r)"
  using assms
  by (simp add: on_chunk_def Let_def Uint8Array_set_def chunk_written_def chunk_run_def
      subarray0_def)

lemma on_chunk_grows:
  assumes "length buffer < offset + length v"
    and "offset + length v \<le> (length buffer + length v) * 2"
  shows "on_chunk v buffer offset r =
           (None, buffer, offset + length v,
            chunk_run (chunk_written (grown buffer v) v offset) (offset + length v) r)"
  using assms
  by (simp add: on_chunk_def Let_def Uint8Array_set_def chunk_written_def chunk_run_def
      subarray0_def grown_def)

lemma on_chunk_overflows:
  assumes "(length buffer + length v) * 2 < offset + length v"
  shows "on_chunk v buffer offset r =
           (Some (RangeError ''offset is out of bounds''), buffer, offset,
            r\<lparr>patch := (patch r)\<lparr>responseBufferInternal := Some (grown buffer v)\<rparr>\<rparr>)"
  using assms
  by (simp add: on_chunk_def Let_def Uint8Array_set_def grown_def)

lemma on_chunk_cases:
  obtains (fits) "offset + length v \<le> length buffer"
  | (grows) "length buffer < offset + length v" "offset + length v \<le> (length buffer + length v) * 2"
  | (overflows) "(length buffer + length v) * 2 < offset + length v"
  by linarith

lemma on_chunk_appended:
  assumes "on_chunk v buffer offset r = (None, buffer1, offset1, r1)"
  shows "offset1 = offset + length v
       \<and> events r1 = events r @ [Event ''readystatechange'', ProgressEvent ''progress'' offset1]
       \<and> (\<exists>b. responseBufferInternal (patch r1) = Some b \<and> offset1 \<le> length b
               \<and> responseBuffer (patch r1) = Some (take offset1 b))
       \<and> readyState (patch r1) = Some 3
       \<and> responseUrl (patch r1) = responseUrl (patch r)
       \<and> status (patch r1) = status (patch r)
       \<and> statusText (patch r1) = statusText (patch r)
       \<and> response (patch r1) = response (patch r)"
proof (cases rule: on_chunk_cases [of offset v buffer])
  case fits
  from assms on_chunk_fits [OF fits, of r]
  have "offset1 = offset + length v"
    and "r1 = chunk_run (chunk_written buffer v offset) (offset + length v) r"
    by auto
  then show ?thesis using fits by (simp add: chunk_run_def)
next
  case grows
  from assms on_chunk_grows [OF grows, of r]
  have "offset1 = offset + length v"
    and "r1 = chunk_run (chunk_written (grown buffer v) v offset) (offset + length v) r"
    by auto
  then show ?thesis using grows by (simp add: chunk_run_def)
next
  case overflows
  from assms on_chunk_overflows [OF overflows, of r] show ?thesis by simp
qed

lemma on_chunk_threw:
  assumes "on_chunk v buffer offset r = (Some e, buffer1, offset1, r1)"
  shows "events r1 = events r \<and> logs r1 = logs r"
proof (cases rule: on_chunk_cases [of offset v buffer])
  case fits
  from assms on_chunk_fits [OF fits, of r] show ?thesis by simp
next
  case grows
  from assms on_chunk_grows [OF grows, of r] show ?thesis by simp
next
  case overflows
  from assms on_chunk_overflows [OF overflows, of r] show ?thesis by auto
qed

lemma progress_events_Cons:
  "progress_events n (c # cs) =
     [Event ''readystatechange'', ProgressEvent ''progress'' (n + length c)]
     @ progress_events (n + length c) cs"
  by (simp add: progress_events_def)

lemma read_loop_done:
  assumes "read_loop cs e buffer offset r = (Resolved n, r')"
  shows "n = offset + length (concat cs)
       \<and> events r' = events r @ progress_events offset cs
       \<and> (cs = [] \<longrightarrow> r' = r)
       \<and> (cs \<noteq> [] \<longrightarrow> (\<exists>b. responseBufferInternal (patch r') = Some b \<and> n \<le> length b))
       \<and> responseUrl (patch r') = responseUrl (patch r)"
  using assms
proof (induction cs arbitrary: buffer offset r)
  case Nil
  then show ?case by (simp add: progress_events_def split: stream_end.splits)
next
  case (Cons v vs)
  obtain err b1 o1 r1 where oc: "on_chunk v buffer offset r = (err, b1, o1, r1)"
    by (cases "on_chunk v buffer offset r") auto
  with Cons.prems have none: "err = None" by (cases err) auto
  with Cons.prems oc have rl: "read_loop vs e b1 o1 r1 = (Resolved n, r')" by simp
  note step = on_chunk_appended [OF oc [unfolded none]]
  note ih = Cons.IH [OF rl]
  show ?case
  proof (cases "vs = []")
    case True
    with ih step show ?thesis by (auto simp add: progress_events_Cons)
  next
    case False
    with ih step show ?thesis by (auto simp add: progress_events_Cons)
  qed
qed

lemma read_loop_events:
  "\<exists>k. events (snd (read_loop cs e buffer offset r)) = events r @ progress_events offset (take k cs)"
proof (induction cs arbitrary: buffer offset r)
  case Nil
  have "events (snd (read_loop [] e buffer offset r)) = events r @ progress_events offset (take 0 [])"
    by (simp add: progress_events_def split: stream_end.splits)
  then show ?case by blast
next
  case (Cons v vs)
  obtain err b1 o1 r1 where oc: "on_chunk v buffer offset r = (err, b1, o1, r1)"
    by (cases "on_chunk v buffer offset r") auto
  show ?case
  proof (cases err)
    case None
    note step = on_chunk_appended [OF oc [unfolded None]]
    obtain k where k: "events (snd (read_loop vs e b1 o1 r1)) = events r1 @ progress_events o1 (take k vs)"
      using Cons.IH by blast
    have "events (snd (read_loop (v # vs) e buffer offset r))
            = events r @ progress_events offset (take (Suc k) (v # vs))"
      using oc None k step by (simp add: progress_events_Cons)
    then show ?thesis by blast
  next
    case (Some e')
    have "events (snd (read_loop (v # vs) e buffer offset r))
            = events r @ progress_events offset (take 0 (v # vs))"
      using oc Some on_chunk_threw [OF oc [unfolded Some]] by (simp add: progress_events_def)
    then show ?thesis by blast
  qed
qed

lemma on_response_done:
  assumes "on_response resp r0 = (Resolved n, r1)"
  shows "n = length (concat (body_chunks resp))
       \<and> events r1 = events r0 @ [Event ''loadstart''] @ progress_events 0 (body_chunks resp)
       \<and> (body_chunks resp \<noteq> [] \<longrightarrow>
            (\<exists>b. responseBufferInternal (patch r1) = Some b \<and> n \<le> length b))"
proof (cases "new_Uint8Array (initial_length resp)")
  case (Inl e)
  with assms show ?thesis by (simp add: on_response_def Let_def)
next
  case (Inr buffer)
  show ?thesis
  proof (cases "resp_body resp")
    case None
    with assms Inr show ?thesis
      by (auto simp add: on_response_def Let_def body_chunks_def progress_events_def)
  next
    case (Some reader)
    from assms Inr Some
    have "\<exists>r3. events r3 = events r0 @ [Event ''loadstart'']
             \<and> read_loop (chunks reader) (ending reader) buffer 0 r3 = (Resolved n, r1)"
      apply (simp add: on_response_def Let_def)
      apply (rule exI, rule conjI)
       prefer 2
       apply assumption
      apply simp
      done
    then obtain r3 where ev: "events r3 = events r0 @ [Event ''loadstart'']"
      and rl: "read_loop (chunks reader) (ending reader) buffer 0 r3 = (Resolved n, r1)"
      by blast
    from read_loop_done [OF rl] Some ev show ?thesis
      by (auto simp add: body_chunks_def)
  qed
qed

lemma run_responder_Completed:
  assumes "run_responder cb p = (Completed, r)"
  shows "\<exists>resp n r1. cb (abortController p) = Inr (Resolved resp)
          \<and> on_response resp (started p) = (Resolved n, r1)
          \<and> r = on_complete resp n r1"
proof (cases "cb (abortController p)")
  case (Inl e)
  with assms show ?thesis by (simp add: run_responder_def Let_def)
next
  case (Inr pr)
  show ?thesis
  proof (cases pr)
    case (Resolved resp)
    obtain q r1 where o: "on_response resp (started p) = (q, r1)"
      by (cases "on_response resp (started p)") auto
    show ?thesis
    proof (cases q)
      case (Resolved n)
      with assms Inr \<open>pr = Resolved resp\<close> o show ?thesis
        by (auto simp add: run_responder_def Let_def started_def)
    next
      case (Rejected e)
      with assms Inr \<open>pr = Resolved resp\<close> o show ?thesis
        by (simp add: run_responder_def Let_def started_def)
    next
      case Pending
      with assms Inr \<open>pr = Resolved resp\<close> o show ?thesis
        by (simp add: run_responder_def Let_def started_def)
    qed
  next
    case (Rejected e)
    with assms Inr show ?thesis by (simp add: run_responder_def Let_def)
  next
    case Pending
    with assms Inr show ?thesis by (simp add: run_responder_def Let_def)
  qed
qed

text \<open>
  Claim C5. Whenever a run of the state machine completes, the responder had resolved
  to a response \<open>resp\<close> and the read loop was left at \<^verbatim>\<open>done\<close> with the final offset
  \<open>n\<close>, the number of bytes of the body, and the run \<open>r1\<close>. The completion step changes
  three fields of the side record of \<open>r1\<close>: the internal buffer becomes its first \<open>n\<close>
  bytes, \<^verbatim>\<open>readyState\<close> becomes 4 and \<^verbatim>\<open>responseUrl\<close> the response's URL; and it
  dispatches exactly \<^verbatim>\<open>load\<close>, \<^verbatim>\<open>readystatechange\<close>, \<^verbatim>\<open>loadend\<close>, in this order,
  after the events of \<open>r1\<close>. The events of the whole run are: \<^verbatim>\<open>readystatechange\<close> and
  \<^verbatim>\<open>loadstart\<close>, then one \<^verbatim>\<open>readystatechange\<close> and one \<^verbatim>\<open>progress\<close> per chunk, then
  these three. The internal buffer, where there is one, has exactly \<open>n\<close> bytes, and
  there is one as soon as the body had a chunk.
\<close>

theorem C5_completion:
  assumes "run_responder cb p = (Completed, r)"
  shows "\<exists>resp n r1. cb (abortController p) = Inr (Resolved resp)
        \<and> on_response resp (started p) = (Resolved n, r1)
        \<and> n = length (concat (body_chunks resp))
        \<and> patch r = (patch r1)
                       \<lparr>responseBufferInternal :=
                          map_option (take n) (responseBufferInternal (patch r1)),
                        readyState := Some 4,
                        responseUrl := Some (resp_url resp)\<rparr>
        \<and> events r = events r1 @ [Event ''load'', Event ''readystatechange'', Event ''loadend'']
        \<and> responseBufferInternal (patch r)
            = map_option (take n) (responseBufferInternal (patch r1))
        \<and> readyState (patch r) = Some 4
        \<and> responseUrl (patch r) = Some (resp_url resp)
        \<and> events r = [Event ''readystatechange'', Event ''loadstart'']
                      @ progress_events 0 (body_chunks resp)
                      @ [Event ''load'', Event ''readystatechange'', Event ''loadend'']
        \<and> (\<forall>b. responseBufferInternal (patch r) = Some b
                 \<longrightarrow> length b = length (concat (body_chunks resp)))
        \<and> (body_chunks resp \<noteq> [] \<longrightarrow> responseBufferInternal (patch r) \<noteq> None)"
proof -
  from run_responder_Completed [OF assms] obtain resp n r1 where
    cb: "cb (abortController p) = Inr (Resolved resp)"
    and o: "on_response resp (started p) = (Resolved n, r1)"
    and r: "r = on_complete resp n r1"
    by blast
  note d = on_response_done [OF o]
  have n: "n = length (concat (body_chunks resp))" using d by simp
  have p: "patch r = (patch r1)
                       \<lparr>responseBufferInternal :=
                          map_option (take n) (responseBufferInternal (patch r1)),
                        readyState := Some 4,
                        responseUrl := Some (resp_url resp)\<rparr>"
    by (simp add: r on_complete_def subarray0_def)
  have e: "events r = events r1 @ [Event ''load'', Event ''readystatechange'', Event ''loadend'']"
    by (simp add: r on_complete_def)
  have 0: "responseBufferInternal (patch r)
            = map_option (take n) (responseBufferInternal (patch r1))"
    by (simp add: p)
  have 1: "readyState (patch r) = Some 4" by (simp add: p)
  have 2: "responseUrl (patch r) = Some (resp_url resp)" by (simp add: p)
  have 3: "events r = [Event ''readystatechange'', Event ''loadstart'']
                      @ progress_events 0 (body_chunks resp)
                      @ [Event ''load'', Event ''readystatechange'', Event ''loadend'']"
    using d by (simp add: e started_def)
  have 4: "\<forall>b. responseBufferInternal (patch r) = Some b
                 \<longrightarrow> length b = length (concat (body_chunks resp))"
  proof (cases "body_chunks resp = []")
    case True
    with d have "n = 0" by simp
    then show ?thesis using True by (auto simp add: 0)
  next
    case False
    with d obtain b where "responseBufferInternal (patch r1) = Some b" "n \<le> length b" by blast
    then show ?thesis using d by (auto simp add: 0)
  qed
  have 5: "body_chunks resp \<noteq> [] \<longrightarrow> responseBufferInternal (patch r) \<noteq> None"
    using d by (auto simp add: 0)
  from cb o n p e 0 1 2 3 4 5 show ?thesis by blast
qed

lemma run_responder_failure:
  assumes "cb (abortController p) = Inl e \<or> cb (abortController p) = Inr (Rejected e)"
  shows "run_responder cb p =
           (Failed,
            \<lparr>patch = p\<lparr>readyState := Some 4\<rparr>,
             events = [Event ''readystatechange'', Event ''error'', Event ''readystatechange''],
             logs = [Log (''Starting XMLHttpRequest with method: '' @ template (xhr_method p)
                          @ '', url: '' @ template (url p)),
                     LogError ''XMLHttpRequest failed to start:'' e]\<rparr>)"
  using assms by (auto simp add: run_responder_def Let_def on_error_def)

lemma initial_lengths:
  "new_Uint8Array (initial_length hello_response) = Inr [0, 0, 0, 0, 0]"
  "new_Uint8Array (initial_length three_chunk_response) = Inr [0]"
  "new_Uint8Array (initial_length slow_response) = Inr [0, 0, 0, 0]"
  "new_Uint8Array (initial_length burst_response) = Inr []"
  "new_Uint8Array (initial_length roomy_response) = Inr [0, 0, 0, 0, 0, 0, 0, 0]"
  "new_Uint8Array (initial_length malformed_response) = Inr [0, 0]"
  by code_simp+

lemma response_bodies:
  "resp_body hello_response = Some \<lparr>chunks = [[0x48, 0x65, 0x6C], [0x6C, 0x6F]], ending = Closes\<rparr>"
  "resp_body three_chunk_response = Some \<lparr>chunks = [[0x61], [0x62], [0x63]], ending = Closes\<rparr>"
  "resp_body slow_response = Some \<lparr>chunks = [[0x68, 0x69]], ending = Stalls\<rparr>"
  "resp_body burst_response = Some \<lparr>chunks = [[1, 2], [3, 4], [5]], ending = Closes\<rparr>"
  "resp_body roomy_response = Some \<lparr>chunks = [[0x68], [0x69]], ending = Closes\<rparr>"
  "resp_body malformed_response = Some \<lparr>chunks = [[0x3C, 0x61]], ending = Closes\<rparr>"
  by (simp_all add: hello_response_def three_chunk_response_def slow_response_def
      burst_response_def roomy_response_def malformed_response_def)

lemma run_three_chunks:
  "fst (run_responder (\<lambda>signal. Inr (Resolved three_chunk_response)) p) = Completed"
  "responseBuffer (patch (snd (run_responder (\<lambda>signal. Inr (Resolved three_chunk_response)) p)))
     = Some [0x61, 0, 0x63]"
  by (simp_all add: run_responder_def on_response_def initial_lengths response_bodies
      on_chunk_def Uint8Array_set_def subarray0_def on_complete_def Let_def)

lemma run_slow:
  "fst (run_responder (\<lambda>signal. Inr (Resolved slow_response)) p) = Suspended"
  "responseBuffer (patch (snd (run_responder (\<lambda>signal. Inr (Resolved slow_response)) p)))
     = Some [0x68, 0x69]"
  "responseBufferInternal (patch (snd (run_responder (\<lambda>signal. Inr (Resolved slow_response)) p)))
     = Some [0x68, 0x69, 0, 0]"
  "readyState (patch (snd (run_responder (\<lambda>signal. Inr (Resolved slow_response)) p))) = Some 3"
  by (simp_all add: run_responder_def on_response_def initial_lengths response_bodies
      on_chunk_def Uint8Array_set_def subarray0_def on_complete_def Let_def)

lemma run_burst:
  "fst (run_responder (\<lambda>signal. Inr (Resolved burst_response)) p) = Failed"
  "responseBuffer (patch (snd (run_responder (\<lambda>signal. Inr (Resolved burst_response)) p)))
     = Some [0, 0, 3, 4]"
  "responseBufferInternal (patch (snd (run_responder (\<lambda>signal. Inr (Resolved burst_response)) p)))
     = Some [0, 0]"
  by (simp_all add: run_responder_def on_response_def initial_lengths response_bodies
      on_chunk_def Uint8Array_set_def subarray0_def on_complete_def on_error_def Let_def
      eval_nat_numeral)

lemma run_roomy:
  "fst (run_responder (\<lambda>signal. Inr (Resolved roomy_response)) p) = Completed"
  "responseBufferInternal (patch (snd (on_response roomy_response (started p))))
     = Some [0x68, 0x69, 0, 0, 0, 0, 0, 0]"
  by (simp_all add: run_responder_def on_response_def initial_lengths response_bodies
      on_chunk_def Uint8Array_set_def subarray0_def on_complete_def Let_def started_def)

lemma run_malformed:
  "responseBuffer (patch (snd (run_responder (\<lambda>signal. Inr (Resolved malformed_response)) p)))
     = Some [0x3C, 0x61]"
  by (simp add: run_responder_def on_response_def initial_lengths response_bodies
      on_chunk_def Uint8Array_set_def subarray0_def on_complete_def Let_def)

text \<open>
  The witness: a body of two bytes in two chunks against a declared length of 8. The
  loop leaves an internal buffer of eight bytes, six of them never written; after the
  completion step it has the two bytes of the body.
\<close>

theorem C5_completion_witness:
  "fst (run_responder (\<lambda>signal. Inr (Resolved roomy_response)) opened_patch) = Completed
   \<and> responseBufferInternal (patch (snd (on_response roomy_response (started opened_patch))))
       = Some [0x68, 0x69, 0, 0, 0, 0, 0, 0]
   \<and> responseBufferInternal
         (patch (snd (run_responder (\<lambda>signal. Inr (Resolved roomy_response)) opened_patch)))
       = Some [0x68, 0x69]
   \<and> readyState (patch (snd (run_responder (\<lambda>signal. Inr (Resolved roomy_response)) opened_patch)))
       = Some 4
   \<and> responseUrl (patch (snd (run_responder (\<lambda>signal. Inr (Resolved roomy_response)) opened_patch)))
       = Some ''https://example.com/''
   \<and> events (snd (run_responder (\<lambda>signal. Inr (Resolved roomy_response)) opened_patch))
       = [Event ''readystatechange'', Event ''loadstart'',
          Event ''readystatechange'', ProgressEvent ''progress'' 1,
          Event ''readystatechange'', ProgressEvent ''progress'' 2,
          Event ''load'', Event ''readystatechange'', Event ''loadend'']"
proof -
  let ?cb = "(\<lambda>signal. Inr (Resolved roomy_response)) :: responder"
  let ?r = "snd (run_responder ?cb opened_patch)"
  have h: "run_responder ?cb opened_patch = (Completed, ?r)"
    using run_roomy(1) [of opened_patch] by (simp add: prod_eq_iff)
  from C5_completion [OF h] obtain resp n r1 where
    cb: "?cb (abortController opened_patch) = Inr (Resolved resp)"
    and o: "on_response resp (started opened_patch) = (Resolved n, r1)"
    and n: "n = length (concat (body_chunks resp))"
    and rest: "responseBufferInternal (patch ?r)
                 = map_option (take n) (responseBufferInternal (patch r1))"
      "readyState (patch ?r) = Some 4" "responseUrl (patch ?r) = Some (resp_url resp)"
      "events ?r = [Event ''readystatechange'', Event ''loadstart'']
                      @ progress_events 0 (body_chunks resp)
                      @ [Event ''load'', Event ''readystatechange'', Event ''loadend'']"
    by blast
  from cb have resp: "resp = roomy_response" by simp
  have r1: "r1 = snd (on_response roomy_response (started opened_patch))"
    using o by (simp add: resp)
  have n2: "n = 2" by (simp add: n resp body_chunks_def response_bodies)
  have pe: "progress_events 0 (body_chunks roomy_response)
      = [Event ''readystatechange'', ProgressEvent ''progress'' 1,
         Event ''readystatechange'', ProgressEvent ''progress'' 2]"
    by (simp add: progress_events_def body_chunks_def response_bodies)
  have u: "resp_url roomy_response = ''https://example.com/''" by (simp add: roomy_response_def)
  have b: "responseBufferInternal (patch ?r) = Some [0x68, 0x69]"
    by (simp add: rest(1) r1 n2 run_roomy)
  from rest(2-4) b show ?thesis
    by (simp add: resp pe u run_roomy)
qed

lemma startXhr_patch:
  "patchXhrKey (snd (snd (startXhrWithResponseCallback cb (w, x))))
     = Some (patch (snd (run_responder cb (fst (getPatchedXMLHttpRequest x)))))"
  "dispatched (snd (snd (startXhrWithResponseCallback cb (w, x))))
     = dispatched x @ events (snd (run_responder cb (fst (getPatchedXMLHttpRequest x))))"
  "logged (fst (snd (startXhrWithResponseCallback cb (w, x))))
     = logged w @ logs (snd (run_responder cb (fst (getPatchedXMLHttpRequest x))))"
  by (simp_all add: startXhr_result)

text \<open>
  Claim C6. Take a \<^verbatim>\<open>send\<close> that a hook answers with a responder, and let the
  responder fail with \<open>e\<close>: it throws when called, or its promise rejects (a
  cancellation is such a rejection). Then \<^verbatim>\<open>send\<close> throws nothing to its caller; the
  side record is the one before the call with \<^verbatim>\<open>readyState\<close> 4; the events dispatched
  by the call are exactly \<^verbatim>\<open>readystatechange\<close> (the start), \<^verbatim>\<open>error\<close>,
  \<^verbatim>\<open>readystatechange\<close>, so neither \<^verbatim>\<open>load\<close> nor \<^verbatim>\<open>loadend\<close>; the last logger
  call reports \<open>e\<close>; and the original \<^verbatim>\<open>send\<close> is not called.
\<close>

theorem C6_responder_failure:
  assumes "xhrToRequest env (fst (getPatchedXMLHttpRequest x)) BodyUndefined = Inr request"
    and "fst (trial (hooks w) request w) = Some cb"
    and "cb (abortController (fst (getPatchedXMLHttpRequest x))) = Inl e
         \<or> cb (abortController (fst (getPatchedXMLHttpRequest x))) = Inr (Rejected e)"
  shows "fst (xhr_send env b (w, x)) = None
       \<and> patchXhrKey (snd (snd (xhr_send env b (w, x))))
           = Some ((fst (getPatchedXMLHttpRequest x))\<lparr>readyState := Some 4\<rparr>)
       \<and> dispatched (snd (snd (xhr_send env b (w, x))))
           = dispatched x @ [Event ''readystatechange'', Event ''error'', Event ''readystatechange'']
       \<and> last (logged (fst (snd (xhr_send env b (w, x)))))
           = LogError ''XMLHttpRequest failed to start:'' e
       \<and> native_calls (snd (snd (xhr_send env b (w, x)))) = native_calls x"
proof -
  obtain w1 where t: "trial (hooks w) request w = (Some cb, w1)"
    using assms(2) by (cases "trial (hooks w) request w") auto
  have s: "xhr_send env b (w, x) =
           (None, snd (startXhrWithResponseCallback cb (w1, snd (getPatchedXMLHttpRequest x))))"
    using assms(1) t by (rule xhr_send_answered)
  have g: "fst (getPatchedXMLHttpRequest (snd (getPatchedXMLHttpRequest x)))
             = fst (getPatchedXMLHttpRequest x)"
    by simp
  have f: "run_responder cb (fst (getPatchedXMLHttpRequest x)) =
           (Failed,
            \<lparr>patch = (fst (getPatchedXMLHttpRequest x))\<lparr>readyState := Some 4\<rparr>,
             events = [Event ''readystatechange'', Event ''error'', Event ''readystatechange''],
             logs = [Log (''Starting XMLHttpRequest with method: ''
                          @ template (xhr_method (fst (getPatchedXMLHttpRequest x)))
                          @ '', url: '' @ template (url (fst (getPatchedXMLHttpRequest x)))),
                     LogError ''XMLHttpRequest failed to start:'' e]\<rparr>)"
    using run_responder_failure [where cb = cb and p = "fst (getPatchedXMLHttpRequest x)"
        and e = e] assms(3) by simp
  show ?thesis
    by (simp add: s startXhr_patch startXhr_frame g f)
qed

lemma aborting_hook_world_hooks:
  "hooks aborting_hook_world =
     [(''test'', (\<lambda>request. Some (\<lambda>signal. Inr (Rejected (DOMException ''Aborted'' ''AbortError'')))))]"
proof -
  have f: "\<not> hooked initial_world" "native_surface initial_world"
    using initial_world_first by simp_all
  have i0: "fst (hookXhrIfNeeded initial_world) = None"
    using hookXhrIfNeeded_first [OF f] by simp
  have k0: "hooks initial_world = []" by (simp add: initial_world_def)
  show ?thesis
    using insertXhrHook_new [OF i0, of "''test''"] k0
    by (simp add: aborting_hook_world_def insert_all_def Map_has_def)
qed

lemma opened_instance_dispatched: "dispatched opened_instance = []"
  by (simp add: opened_instance_def xhr_open_def Let_def case_prod_beta fresh_instance_def)

text \<open>The witness: the only hook answers with a responder that rejects with an abort error.\<close>

theorem C6_responder_failure_witness:
  "fst (xhr_send example_host BodyUndefined (aborting_hook_world, opened_instance)) = None
   \<and> map_option readyState
        (patchXhrKey (snd (snd (xhr_send example_host BodyUndefined (aborting_hook_world, opened_instance)))))
       = Some (Some 4)
   \<and> dispatched (snd (snd (xhr_send example_host BodyUndefined (aborting_hook_world, opened_instance))))
       = [Event ''readystatechange'', Event ''error'', Event ''readystatechange'']
   \<and> native_calls (snd (snd (xhr_send example_host BodyUndefined (aborting_hook_world, opened_instance))))
       = [NativeOpen ''GET'' ''https://example.com/'' []]"
proof -
  let ?cb = "(\<lambda>signal. Inr (Rejected (DOMException ''Aborted'' ''AbortError''))) :: responder"
  let ?request = "\<lparr>req_url = ''https://example.com/'', req_method = ''GET'', req_headers = [],
            req_body = BodyNull\<rparr>"
  have t: "fst (trial (hooks aborting_hook_world) ?request aborting_hook_world) = Some ?cb"
    by (simp add: aborting_hook_world_hooks Let_def)
  have c: "?cb (abortController (fst (getPatchedXMLHttpRequest opened_instance)))
              = Inl (DOMException ''Aborted'' ''AbortError'')
         \<or> ?cb (abortController (fst (getPatchedXMLHttpRequest opened_instance)))
              = Inr (Rejected (DOMException ''Aborted'' ''AbortError''))"
    by simp
  show ?thesis
    using C6_responder_failure [OF opened_instance_request t c, of BodyUndefined]
    by (simp add: opened_instance_dispatched opened_instance_native)
qed

text \<open>
  Claim C2 fails on the code. The loop compares against and copies from the local
  \<^verbatim>\<open>buffer\<close>, which is never replaced by the array allocated on growth. With a
  declared length of 1 and the chunks \<^verbatim>\<open>a\<close>, \<^verbatim>\<open>b\<close>, \<^verbatim>\<open>c\<close>, the second chunk
  makes the buffer grow and the third makes it grow again from the first buffer, which
  never received \<^verbatim>\<open>b\<close>: the run completes with \<^verbatim>\<open>responseBuffer\<close> holding
  \<^verbatim>\<open>a\<close>, a zero byte and \<^verbatim>\<open>c\<close>, not the concatenation of the chunks.
\<close>

theorem C2_second_growth_drops_bytes:
  "fst (run_responder (\<lambda>signal. Inr (Resolved three_chunk_response)) p) = Completed
   \<and> responseBuffer (patch (snd (run_responder (\<lambda>signal. Inr (Resolved three_chunk_response)) p)))
       = Some [0x61, 0, 0x63]
   \<and> concat (body_chunks three_chunk_response) = [0x61, 0x62, 0x63]"
  by (simp add: run_three_chunks body_chunks_def response_bodies)

text \<open>
  Claim C8 fails on the code in two places. While a response with a declared length
  of 4 is streaming and two bytes have arrived, \<^verbatim>\<open>responseBuffer\<close> holds the two
  bytes, but the \<^verbatim>\<open>responseText\<close> getter hands the decoder all four bytes of the
  internal buffer, the two unwritten ones included. And when a later growth makes
  \<^verbatim>\<open>set\<close> throw (declared length 0, chunks of 2, 2 and 1 bytes), the run ends with a
  \<^verbatim>\<open>responseBuffer\<close> of four bytes beside an internal buffer of two zero bytes:
  longer than the internal buffer and not a prefix of it.
\<close>

theorem C8_text_view_reads_internal_buffer:
  "get_responseText decode
       (snd (snd (startXhrWithResponseCallback (\<lambda>signal. Inr (Resolved slow_response)) (w, x))))
       original
     = decode [0x68, 0x69, 0, 0]
   \<and> map_option responseBuffer
        (patchXhrKey (snd (snd (startXhrWithResponseCallback
                                  (\<lambda>signal. Inr (Resolved slow_response)) (w, x)))))
     = Some (Some [0x68, 0x69])
   \<and> map_option responseBuffer
        (patchXhrKey (snd (snd (startXhrWithResponseCallback
                                  (\<lambda>signal. Inr (Resolved burst_response)) (w, x)))))
     = Some (Some [0, 0, 3, 4])
   \<and> map_option responseBufferInternal
        (patchXhrKey (snd (snd (startXhrWithResponseCallback
                                  (\<lambda>signal. Inr (Resolved burst_response)) (w, x)))))
     = Some (Some [0, 0])"
  by (simp add: get_responseText_def startXhr_patch run_slow run_burst)

section \<open>The getters\<close>

text \<open>
  With a buffered body, the read of \<^verbatim>\<open>response\<close> always returns a value and never
  throws, whatever the decoder and the parsers do. For the type \<^verbatim>\<open>json\<close> it is the
  parsed value, and \<^verbatim>\<open>null\<close> when the decoder or the parser throws; for a type that
  is none of the six known ones it is \<^verbatim>\<open>null\<close>; and whatever exception the
  \<^verbatim>\<open>switch\<close> raises, the value is \<^verbatim>\<open>null\<close>. For the type \<^verbatim>\<open>document\<close> it is the
  document the parser returns, and with the host's parser that is a document also for
  a text that is not well-formed.
\<close>

lemma get_response_total:
  assumes "responseBuffer (fst (getPatchedXMLHttpRequest x)) = Some buffer"
  shows "(\<exists>v. get_response decode parseFromString JSON_parse x original = Inr v)
       \<and> (responseType x = ''document'' \<longrightarrow>
            get_response decode parseFromString JSON_parse x original =
              Inr (case decode buffer of
                     Inl e \<Rightarrow> Null
                   | Inr t \<Rightarrow> (case parseFromString t of Inl e \<Rightarrow> Null | Inr d \<Rightarrow> Document d)))
       \<and> (responseType x = ''json'' \<longrightarrow>
            get_response decode parseFromString JSON_parse x original =
              Inr (case decode buffer of
                     Inl e \<Rightarrow> Null
                   | Inr t \<Rightarrow> (case JSON_parse t of Inl e \<Rightarrow> Null | Inr j \<Rightarrow> Json j)))
       \<and> (responseType x \<notin> set ['''', ''text'', ''arraybuffer'', ''blob'', ''document'', ''json'']
            \<longrightarrow> get_response decode parseFromString JSON_parse x original = Inr Null)
       \<and> (\<forall>e. response_switch decode parseFromString JSON_parse (responseType x) buffer = Inl e
            \<longrightarrow> get_response decode parseFromString JSON_parse x original = Inr Null)"
proof (intro conjI impI allI)
  show "\<exists>v. get_response decode parseFromString JSON_parse x original = Inr v"
    using assms by (simp add: get_response_def split: sum.splits)
next
  assume "responseType x = ''document''"
  then show "get_response decode parseFromString JSON_parse x original =
              Inr (case decode buffer of
                     Inl e \<Rightarrow> Null
                   | Inr t \<Rightarrow> (case parseFromString t of Inl e \<Rightarrow> Null | Inr d \<Rightarrow> Document d))"
    using assms by (simp add: get_response_def response_switch_def split: sum.splits)
next
  assume "responseType x = ''json''"
  then show "get_response decode parseFromString JSON_parse x original =
              Inr (case decode buffer of
                     Inl e \<Rightarrow> Null
                   | Inr t \<Rightarrow> (case JSON_parse t of Inl e \<Rightarrow> Null | Inr j \<Rightarrow> Json j))"
    using assms by (simp add: get_response_def response_switch_def split: sum.splits)
next
  assume "responseType x \<notin> set ['''', ''text'', ''arraybuffer'', ''blob'', ''document'', ''json'']"
  then show "get_response decode parseFromString JSON_parse x original = Inr Null"
    using assms by (simp add: get_response_def response_switch_def)
next
  fix e
  assume "response_switch decode parseFromString JSON_parse (responseType x) buffer = Inl e"
  then show "get_response decode parseFromString JSON_parse x original = Inr Null"
    using assms by (simp add: get_response_def)
qed

lemma get_response_document:
  assumes "responseBuffer (fst (getPatchedXMLHttpRequest x)) = Some buffer"
    and "responseType x = ''document''"
  shows "get_response decode (DOMParser_parseFromString well_formed) JSON_parse x original =
           Inr (case decode buffer of
                  Inl e \<Rightarrow> Null
                | Inr t \<Rightarrow> Document (if well_formed t then XMLDocument t
                                      else ParserErrorDocument t))"
  using assms
  by (simp add: get_response_def response_switch_def DOMParser_parseFromString_def
      split: sum.splits)

text \<open>
  Claim C7 fails on the code for the type \<^verbatim>\<open>document\<close>. The getter returns what
  \<^verbatim>\<open>parseFromString\<close> returns, and the parser reports a text that is not well-formed
  in the document it returns, without throwing, so the \<^verbatim>\<open>catch\<close> is not reached. After
  a hooked response with the body \<^verbatim>\<open><a\<close> has completed, on any instance, the read of
  \<^verbatim>\<open>response\<close> with the type \<^verbatim>\<open>document\<close> is the document the parser made of
  \<^verbatim>\<open><a\<close>: the \<^verbatim>\<open>parsererror\<close> document where the parser takes the text for not
  well-formed, and in no case \<^verbatim>\<open>null\<close>.
\<close>

theorem C7_malformed_document_is_not_null:
  "get_response ascii_decode (DOMParser_parseFromString well_formed) JSON_parse
       ((snd (snd (startXhrWithResponseCallback (\<lambda>signal. Inr (Resolved malformed_response))
                     (w, x))))\<lparr>responseType := ''document''\<rparr>)
       original
     = Inr (Document (if well_formed ''<a'' then XMLDocument ''<a''
                      else ParserErrorDocument ''<a''))
   \<and> get_response ascii_decode (DOMParser_parseFromString (\<lambda>t. False)) JSON_parse
       ((snd (snd (startXhrWithResponseCallback (\<lambda>signal. Inr (Resolved malformed_response))
                     (w, x))))\<lparr>responseType := ''document''\<rparr>)
       original
     = Inr (Document (ParserErrorDocument ''<a''))
   \<and> get_response ascii_decode (DOMParser_parseFromString well_formed) JSON_parse
       ((snd (snd (startXhrWithResponseCallback (\<lambda>signal. Inr (Resolved malformed_response))
                     (w, x))))\<lparr>responseType := ''document''\<rparr>)
       original
     \<noteq> Inr Null"
proof -
  let ?x = "(snd (snd (startXhrWithResponseCallback (\<lambda>signal. Inr (Resolved malformed_response))
                         (w, x))))\<lparr>responseType := ''document''\<rparr>"
  have k: "patchXhrKey ?x
     = Some (patch (snd (run_responder (\<lambda>signal. Inr (Resolved malformed_response))
                           (fst (getPatchedXMLHttpRequest x)))))"
    by (simp add: startXhr_patch)
  have b: "responseBuffer (fst (getPatchedXMLHttpRequest ?x)) = Some [0x3C, 0x61]"
    by (simp add: getPatched_Some [OF k] run_malformed)
  have t: "responseType ?x = ''document''" by simp
  have d: "ascii_decode [0x3C, 0x61] = Inr ''<a''"
    by code_simp
  have v: "get_response ascii_decode (DOMParser_parseFromString wf) JSON_parse ?x original
             = Inr (Document (if wf ''<a'' then XMLDocument ''<a''
                              else ParserErrorDocument ''<a''))" for wf
    using get_response_document [OF b t, of ascii_decode wf JSON_parse original]
    by (simp add: d)
  show ?thesis
    by (simp add: v)
qed

lemma xhr_open_result:
  assumes "patchXhrKey x = Some p"
  shows "xhr_open m u rest (w, x) =
           (logger (Log (''XMLHttpRequest open called with method: '' @ m @ '', url: '' @ u)) w,
            x\<lparr>aborted := aborted x @ [abortController p],
              controllers := Suc (controllers x),
              patchXhrKey := Some (p\<lparr>abortController := controllers x, xhr_method := Some m,
                                      url := Some u, headers := Some []\<rparr>),
              native_calls := native_calls x @ [NativeOpen m u rest]\<rparr>)"
  using assms by (simp add: xhr_open_def Let_def)

text \<open>
  Claim C10. On an instance that has a side record \<open>p\<close>, \<^verbatim>\<open>open\<close> aborts the
  current controller and changes exactly four fields of the record: the controller,
  the method, the URL and the headers. A following \<^verbatim>\<open>send\<close> that no hook answers
  forwards to the original \<^verbatim>\<open>send\<close> and leaves the record as \<^verbatim>\<open>open\<close> left it. After
  both, the getters for \<^verbatim>\<open>readyState\<close>, \<^verbatim>\<open>status\<close>, \<^verbatim>\<open>statusText\<close> and
  \<^verbatim>\<open>responseURL\<close> still return the values of \<open>p\<close> wherever \<open>p\<close> has one, whatever
  the native value is; \<^verbatim>\<open>response\<close> and \<^verbatim>\<open>responseText\<close> read as they did before the
  reopening; and the stored response object is the one of \<open>p\<close>.
\<close>

theorem C10_reopen_keeps_emulated_fields:
  assumes "patchXhrKey x = Some p"
    and "xhrToRequest env (fst (getPatchedXMLHttpRequest (snd (xhr_open m u rest (w, x)))))
           BodyUndefined = Inr request"
    and "\<forall>(n, h) \<in> set (hooks w). h request = None"
  shows "patchXhrKey (snd (xhr_open m u rest (w, x)))
           = Some (p\<lparr>abortController := controllers x, xhr_method := Some m,
                     url := Some u, headers := Some []\<rparr>)
       \<and> aborted (snd (xhr_open m u rest (w, x))) = aborted x @ [abortController p]
       \<and> patchXhrKey (snd (snd (xhr_send env b (xhr_open m u rest (w, x)))))
           = patchXhrKey (snd (xhr_open m u rest (w, x)))
       \<and> native_calls (snd (snd (xhr_send env b (xhr_open m u rest (w, x)))))
           = native_calls x @ [NativeOpen m u rest, NativeSend b]
       \<and> get_readyState (snd (snd (xhr_send env b (xhr_open m u rest (w, x))))) native_readyState
           = (case readyState p of Some v \<Rightarrow> v | None \<Rightarrow> native_readyState)
       \<and> get_status (snd (snd (xhr_send env b (xhr_open m u rest (w, x))))) native_status
           = (case status p of Some v \<Rightarrow> v | None \<Rightarrow> native_status)
       \<and> get_statusText (snd (snd (xhr_send env b (xhr_open m u rest (w, x))))) native_statusText
           = (case statusText p of Some v \<Rightarrow> v | None \<Rightarrow> native_statusText)
       \<and> get_responseURL (snd (snd (xhr_send env b (xhr_open m u rest (w, x))))) native_url
           = (case responseUrl p of Some v \<Rightarrow> v | None \<Rightarrow> native_url)
       \<and> get_response decode parseFromString JSON_parse
             (snd (snd (xhr_send env b (xhr_open m u rest (w, x))))) native_response
           = get_response decode parseFromString JSON_parse x native_response
       \<and> get_responseText decode (snd (snd (xhr_send env b (xhr_open m u rest (w, x))))) native_text
           = get_responseText decode x native_text
       \<and> response (fst (getPatchedXMLHttpRequest
                           (snd (snd (xhr_send env b (xhr_open m u rest (w, x)))))))
           = response p"
proof -
  let ?w1 = "logger (Log (''XMLHttpRequest open called with method: '' @ m @ '', url: '' @ u)) w"
  let ?p1 = "p\<lparr>abortController := controllers x, xhr_method := Some m,
                url := Some u, headers := Some []\<rparr>"
  let ?x1 = "x\<lparr>aborted := aborted x @ [abortController p],
              controllers := Suc (controllers x),
              patchXhrKey := Some ?p1,
              native_calls := native_calls x @ [NativeOpen m u rest]\<rparr>"
  have o: "xhr_open m u rest (w, x) = (?w1, ?x1)"
    using assms(1) by (rule xhr_open_result)
  have k: "patchXhrKey ?x1 = Some ?p1" by simp
  have g: "getPatchedXMLHttpRequest ?x1 = (?p1, ?x1)"
    using k by (rule getPatched_Some)
  have rq: "xhrToRequest env (fst (getPatchedXMLHttpRequest ?x1)) BodyUndefined = Inr request"
    using assms(2) by (simp add: o)
  have none: "\<forall>(n, h) \<in> set (hooks ?w1). h request = None"
    using assms(3) by simp
  obtain w2 where t: "trial (hooks ?w1) request ?w1 = (None, w2)"
    using trial_none [OF none, of ?w1] by (cases "trial (hooks ?w1) request ?w1") auto
  have s: "xhr_send env b (?w1, ?x1) =
           (None,
            logger (Log ''No hooks returned a response, proceeding with original send.'') w2,
            (snd (getPatchedXMLHttpRequest ?x1))
               \<lparr>native_calls := native_calls ?x1 @ [NativeSend b]\<rparr>)"
    using rq t by (rule xhr_send_forwarded)
  have x2: "snd (snd (xhr_send env b (xhr_open m u rest (w, x))))
              = ?x1\<lparr>native_calls := native_calls x @ [NativeOpen m u rest, NativeSend b]\<rparr>"
    unfolding o s g by simp
  have x1: "snd (xhr_open m u rest (w, x)) = ?x1" unfolding o by simp
  show ?thesis
    unfolding x2 x1
    using assms(1)
    by (simp add: get_readyState_def get_status_def get_statusText_def get_responseURL_def
        get_response_def get_responseText_def cong: option.case_cong)
qed

lemma run_hello_fields:
  "readyState (patch (snd (run_responder (\<lambda>signal. Inr (Resolved hello_response)) p))) = Some 4"
  "status (patch (snd (run_responder (\<lambda>signal. Inr (Resolved hello_response)) p))) = Some 201"
  "statusText (patch (snd (run_responder (\<lambda>signal. Inr (Resolved hello_response)) p)))
     = Some ''Created''"
  "responseUrl (patch (snd (run_responder (\<lambda>signal. Inr (Resolved hello_response)) p)))
     = Some ''https://example.com/''"
proof -
  have f: "resp_status hello_response = 201" "resp_statusText hello_response = ''Created''"
    "resp_url hello_response = ''https://example.com/''"
    by (simp_all add: hello_response_def)
  show "readyState (patch (snd (run_responder (\<lambda>signal. Inr (Resolved hello_response)) p))) = Some 4"
    "status (patch (snd (run_responder (\<lambda>signal. Inr (Resolved hello_response)) p))) = Some 201"
    "statusText (patch (snd (run_responder (\<lambda>signal. Inr (Resolved hello_response)) p)))
       = Some ''Created''"
    "responseUrl (patch (snd (run_responder (\<lambda>signal. Inr (Resolved hello_response)) p)))
       = Some ''https://example.com/''"
    by (simp_all add: run_responder_def on_response_def initial_lengths response_bodies f
        on_chunk_def Uint8Array_set_def subarray0_def on_complete_def Let_def)
qed

text \<open>
  The witness: the instance whose hooked lifecycle completed with status 201 is
  reopened and sent with a hook that does not answer; the getters still give
  \<^verbatim>\<open>readyState\<close> 4, status 201, \<^verbatim>\<open>Created\<close> and the first response's URL.
\<close>

theorem C10_reopen_keeps_emulated_fields_witness:
  "get_readyState
      (snd (snd (xhr_send example_host BodyNull
                   (xhr_open ''GET'' ''https://example.com/next'' [] (one_hook_world, completed_instance)))))
      1 = 4
   \<and> get_status
      (snd (snd (xhr_send example_host BodyNull
                   (xhr_open ''GET'' ''https://example.com/next'' [] (one_hook_world, completed_instance)))))
      0 = 201
   \<and> get_statusText
      (snd (snd (xhr_send example_host BodyNull
                   (xhr_open ''GET'' ''https://example.com/next'' [] (one_hook_world, completed_instance)))))
      [] = ''Created''
   \<and> get_responseURL
      (snd (snd (xhr_send example_host BodyNull
                   (xhr_open ''GET'' ''https://example.com/next'' [] (one_hook_world, completed_instance)))))
      ''https://example.com/next'' = ''https://example.com/''"
proof -
  let ?p = "patch (snd (run_responder (\<lambda>signal. Inr (Resolved hello_response))
                           (fst (getPatchedXMLHttpRequest opened_instance))))"
  let ?request = "\<lparr>req_url = ''https://example.com/next'', req_method = ''GET'',
                   req_headers = [], req_body = BodyNull\<rparr>"
  have a: "patchXhrKey completed_instance = Some ?p"
    by (simp add: completed_instance_def startXhr_patch)
  have b: "xhrToRequest example_host
             (fst (getPatchedXMLHttpRequest
                (snd (xhr_open ''GET'' ''https://example.com/next'' [] (one_hook_world, completed_instance)))))
             BodyUndefined = Inr ?request"
    by (simp add: xhr_open_result [OF a] xhrToRequest_def Object_entries_def new_Request_def
        example_host_def is_token_def is_tchar_def is_forbidden_method_def normalize_method_def
        ascii_lower_def ascii_upper_def)
  have c: "\<forall>(n, h) \<in> set (hooks one_hook_world). h ?request = None"
    by (simp add: one_hook_world_simps)
  let ?x2 = "snd (snd (xhr_send example_host BodyNull
                   (xhr_open ''GET'' ''https://example.com/next'' [] (one_hook_world, completed_instance))))"
  have getters: "get_readyState ?x2 1 = (case readyState ?p of Some v \<Rightarrow> v | None \<Rightarrow> 1)
       \<and> get_status ?x2 0 = (case status ?p of Some v \<Rightarrow> v | None \<Rightarrow> 0)
       \<and> get_statusText ?x2 [] = (case statusText ?p of Some v \<Rightarrow> v | None \<Rightarrow> [])
       \<and> get_responseURL ?x2 ''https://example.com/next''
           = (case responseUrl ?p of Some v \<Rightarrow> v | None \<Rightarrow> ''https://example.com/next'')"
    using C10_reopen_keeps_emulated_fields [OF a b c, where b = BodyNull
        and native_readyState = 1 and native_status = 0 and native_statusText = "[]"
        and native_url = "''https://example.com/next''" and decode = ascii_decode
        and parseFromString = "DOMParser_parseFromString (\<lambda>t. True)" and JSON_parse = no_parse
        and native_response = Null and native_text = "[]"]
    by blast
  then show ?thesis
    by (simp add: run_hello_fields)
qed

end
